theory Spec2Isabelle
  imports Main
begin

section \<open>The RTVI voice service (src/lib/services/rtvi.ts)\<close>

text \<open>
  The class \<^verbatim>\<open>RTVIVoiceService\<close> is a record of its private fields. Everything the
  service does to the outside world (callbacks it invokes, console output, frames it
  sends, HTTP requests, tracks it stops, objects it closes) is appended, in order, to
  the \<open>effects\<close> log carried next to the fields. Browser objects owned by the service
  (the peer connection, the data channel, the local stream, the audio element) are
  records held in the field that references them; an event of the browser first updates
  the object the field references and then runs the handler the source attached.
  Callbacks are supplied by the caller and are assumed not to throw; the model records
  which callbacks are supplied, and an invocation of a supplied callback is an effect.
\<close>

subsection \<open>Errors and the caller's interface\<close>

datatype js_error = JsError (err_name: string) (err_message: string)

definition new_Error :: "string \<Rightarrow> js_error" where
  "new_Error msg = JsError ''Error'' msg"

record RTVIConfig =
  serverUrl :: string
  enableMic :: "bool option"
  enableCam :: "bool option"

text \<open>Every callback is optional: the flag says whether the caller supplied it.\<close>

record RTVICallbacks =
  onUserTranscript :: bool
  onBotTranscript :: bool
  onBotStartedSpeaking :: bool
  onBotStoppedSpeaking :: bool
  onUserStartedSpeaking :: bool
  onUserStoppedSpeaking :: bool
  onConnectionStateChange :: bool
  onError :: bool

definition no_callbacks :: RTVICallbacks where
  "no_callbacks = \<lparr>onUserTranscript = False, onBotTranscript = False,
     onBotStartedSpeaking = False, onBotStoppedSpeaking = False,
     onUserStartedSpeaking = False, onUserStoppedSpeaking = False,
     onConnectionStateChange = False, onError = False\<rparr>"

definition all_callbacks :: RTVICallbacks where
  "all_callbacks = \<lparr>onUserTranscript = True, onBotTranscript = True,
     onBotStartedSpeaking = True, onBotStoppedSpeaking = True,
     onUserStartedSpeaking = True, onUserStoppedSpeaking = True,
     onConnectionStateChange = True, onError = True\<rparr>"

datatype callback_event =
    OnUserTranscript string bool
  | OnBotTranscript string
  | OnBotStartedSpeaking
  | OnBotStoppedSpeaking
  | OnUserStartedSpeaking
  | OnUserStoppedSpeaking
  | OnConnectionStateChange string
  | OnError js_error

subsection \<open>Control messages\<close>

text \<open>
  \<^verbatim>\<open>interface RTVIMessage { type; data?: { text?: string; final?: boolean; error?: string } }\<close>.
  The type tag is a string: the server may send tags outside \<^verbatim>\<open>RTVIMessageType\<close>.
\<close>

record RTVIData =
  d_text :: "string option"
  d_final :: "bool option"
  d_error :: "string option"

record RTVIMessage =
  msg_type :: string
  msg_data :: "RTVIData option"

text \<open>The outgoing handshake object built by \<^verbatim>\<open>sendClientReady\<close>, before serialisation.\<close>

record ClientReadyMessage =
  cr_label :: string
  cr_type :: string
  cr_id :: string
  cr_version :: string

subsection \<open>Browser objects\<close>

datatype RTCIceConnectionState =
  IceNew | IceChecking | IceConnected | IceCompleted | IceFailed | IceDisconnected | IceClosed

datatype RTCPeerConnectionState =
  PcNew | PcConnecting | PcConnected | PcDisconnected | PcFailed | PcClosed

datatype RTCDataChannelState = DcConnecting | DcOpen | DcClosing | DcClosed

fun ice_string :: "RTCIceConnectionState \<Rightarrow> string" where
  "ice_string IceNew = ''new''"
| "ice_string IceChecking = ''checking''"
| "ice_string IceConnected = ''connected''"
| "ice_string IceCompleted = ''completed''"
| "ice_string IceFailed = ''failed''"
| "ice_string IceDisconnected = ''disconnected''"
| "ice_string IceClosed = ''closed''"

fun pc_string :: "RTCPeerConnectionState \<Rightarrow> string" where
  "pc_string PcNew = ''new''"
| "pc_string PcConnecting = ''connecting''"
| "pc_string PcConnected = ''connected''"
| "pc_string PcDisconnected = ''disconnected''"
| "pc_string PcFailed = ''failed''"
| "pc_string PcClosed = ''closed''"

datatype SessionDescription = SessionDescription (sd_type: string) (sd_sdp: string)

record RTCPeerConnection =
  iceServers :: "string list"
  iceConnectionState :: RTCIceConnectionState
  connectionState :: RTCPeerConnectionState
  localDescription :: "SessionDescription option"
  remoteDescription :: "SessionDescription option"
  handlersSet :: bool

record RTCDataChannel =
  dc_label :: string
  readyState :: RTCDataChannelState
  dc_handlersSet :: bool

datatype track_kind = Audio | Video

record MediaStreamTrack =
  track_id :: string
  kind :: track_kind
  enabled :: bool

record HTMLAudioElement =
  srcObject :: "string option"
  autoplay :: bool

subsection \<open>Effects and the service state\<close>

datatype console_level = Log | Warn | Err

datatype effect =
    Console console_level string
  | Call callback_event
  | Fetch string string
  | GetUserMedia bool
  | AddTrack string
  | TrackStop string
  | AudioDetach
  | DcSend ClientReadyMessage
  | DcClose
  | PcClose

record service =
  pc :: "RTCPeerConnection option"
  dc :: "RTCDataChannel option"
  localStream :: "MediaStreamTrack list option"
  remoteAudio :: "HTMLAudioElement option"
  sessionId :: "string option"
  svc_serverUrl :: string
  callbacks :: RTVICallbacks
  connected :: bool
  accumulatedBotText :: string
  effects :: "effect list"

text \<open>The field initialisers of the class.\<close>

definition new_service :: service where
  "new_service = \<lparr>pc = None, dc = None, localStream = None, remoteAudio = None,
     sessionId = None, svc_serverUrl = '''', callbacks = no_callbacks,
     connected = False, accumulatedBotText = '''', effects = []\<rparr>"

definition emit :: "effect \<Rightarrow> service \<Rightarrow> service" where
  "emit e s = s\<lparr>effects := effects s @ [e]\<rparr>"

definition emit_all :: "effect list \<Rightarrow> service \<Rightarrow> service" where
  "emit_all es s = s\<lparr>effects := effects s @ es\<rparr>"

definition console :: "console_level \<Rightarrow> string \<Rightarrow> service \<Rightarrow> service" where
  "console lvl msg s = emit (Console lvl msg) s"

text \<open>\<^verbatim>\<open>this.callbacks.f?.(args)\<close>: the call happens when \<open>f\<close> was supplied.\<close>

definition invoke :: "(RTVICallbacks \<Rightarrow> bool) \<Rightarrow> callback_event \<Rightarrow> service \<Rightarrow> service" where
  "invoke f ev s = (if f (callbacks s) then emit (Call ev) s else s)"

text \<open>What a run added to the log, the callbacks among it, and the frames among it.\<close>

definition since :: "service \<Rightarrow> service \<Rightarrow> effect list" where
  "since s s' = drop (length (effects s)) (effects s')"

fun calls :: "effect list \<Rightarrow> callback_event list" where
  "calls [] = []"
| "calls (Call ev # es) = ev # calls es"
| "calls (_ # es) = calls es"

fun sends :: "effect list \<Rightarrow> ClientReadyMessage list" where
  "sends [] = []"
| "sends (DcSend m # es) = m # sends es"
| "sends (_ # es) = sends es"

text \<open>The class fields alone, with the log left out.\<close>

definition svc_fields :: "service \<Rightarrow> service" where
  "svc_fields s = s\<lparr>effects := []\<rparr>"

subsection \<open>handleRTVIMessage\<close>

text \<open>\<^verbatim>\<open>message.data?.text\<close>, \<^verbatim>\<open>message.data?.final\<close>, \<^verbatim>\<open>message.data?.error\<close>.\<close>

definition data_text :: "RTVIMessage \<Rightarrow> string option" where
  "data_text message = (case msg_data message of None \<Rightarrow> None | Some d \<Rightarrow> d_text d)"

definition data_final :: "RTVIMessage \<Rightarrow> bool option" where
  "data_final message = (case msg_data message of None \<Rightarrow> None | Some d \<Rightarrow> d_final d)"

definition data_error :: "RTVIMessage \<Rightarrow> string option" where
  "data_error message = (case msg_data message of None \<Rightarrow> None | Some d \<Rightarrow> d_error d)"

definition handleRTVIMessage :: "RTVIMessage \<Rightarrow> service \<Rightarrow> service" where
  "handleRTVIMessage message s0 =
    (let s = console Log ''[RTVI] Message:'' s0; t = msg_type message in
     if t = ''user-transcription'' then
       (case data_text message of
          Some txt \<Rightarrow>
            invoke onUserTranscript
              (OnUserTranscript txt (case data_final message of Some b \<Rightarrow> b | None \<Rightarrow> False)) s
        | None \<Rightarrow> s)
     else if t = ''bot-llm-text'' \<or> t = ''bot-tts-text'' then
       (case data_text message of
          Some txt \<Rightarrow>
            (let s1 = s\<lparr>accumulatedBotText := accumulatedBotText s @ txt\<rparr>
             in invoke onBotTranscript (OnBotTranscript (accumulatedBotText s1)) s1)
        | None \<Rightarrow> s)
     else if t = ''bot-llm-started'' then s\<lparr>accumulatedBotText := ''''\<rparr>
     else if t = ''bot-llm-stopped'' then s
     else if t = ''bot-started-speaking'' \<or> t = ''bot-tts-started'' then
       invoke onBotStartedSpeaking OnBotStartedSpeaking s
     else if t = ''bot-stopped-speaking'' \<or> t = ''bot-tts-stopped'' then
       invoke onBotStoppedSpeaking OnBotStoppedSpeaking s
     else if t = ''user-started-speaking'' then
       invoke onUserStartedSpeaking OnUserStartedSpeaking s
     else if t = ''user-stopped-speaking'' then
       invoke onUserStoppedSpeaking OnUserStoppedSpeaking s
     else if t = ''error'' then
       (case data_error message of
          Some e \<Rightarrow> if e \<noteq> '''' then invoke onError (OnError (new_Error e)) s else s
        | None \<Rightarrow> s)
     else s)"

text \<open>A text fragment carried by a \<^verbatim>\<open>bot-llm-text\<close> or \<^verbatim>\<open>bot-tts-text\<close> message.\<close>

definition fragment :: "string \<Rightarrow> string \<Rightarrow> RTVIMessage" where
  "fragment t txt =
     \<lparr>msg_type = t, msg_data = Some \<lparr>d_text = Some txt, d_final = None, d_error = None\<rparr>\<rparr>"

definition bare :: "string \<Rightarrow> RTVIMessage" where
  "bare t = \<lparr>msg_type = t, msg_data = None\<rparr>"

fun handle_all :: "RTVIMessage list \<Rightarrow> service \<Rightarrow> service" where
  "handle_all [] s = s"
| "handle_all (m # ms) s = handle_all ms (handleRTVIMessage m s)"

subsection \<open>Peer-connection handlers\<close>

text \<open>
  \<^verbatim>\<open>setupPeerConnectionHandlers\<close> assigns the five handlers below to \<^verbatim>\<open>this.pc\<close>;
  the flag on the connection records that they are attached.
\<close>

definition setupPeerConnectionHandlers :: "service \<Rightarrow> service" where
  "setupPeerConnectionHandlers s =
     (case pc s of None \<Rightarrow> s | Some p \<Rightarrow> s\<lparr>pc := Some (p\<lparr>handlersSet := True\<rparr>)\<rparr>)"

text \<open>\<^verbatim>\<open>pc.ontrack\<close>, with \<^verbatim>\<open>event.track.kind\<close> and the ids of \<^verbatim>\<open>event.streams\<close>.\<close>

definition ontrack :: "track_kind \<Rightarrow> string list \<Rightarrow> service \<Rightarrow> service" where
  "ontrack k streams s0 =
     (let s = console Log ''[RTVI] Received remote track:'' s0 in
      if k = Audio then
        (let s = s\<lparr>remoteAudio := Some \<lparr>srcObject = (case streams of [] \<Rightarrow> None | x # _ \<Rightarrow> Some x),
                                          autoplay = True\<rparr>\<rparr>
         in console Log ''[RTVI] Remote audio playback started'' s)
      else s)"

text \<open>
  \<^verbatim>\<open>this.pc?.iceConnectionState || 'unknown'\<close>: the state names are never empty, so
  \<^verbatim>\<open>'unknown'\<close> is read exactly when \<^verbatim>\<open>this.pc\<close> is null.
\<close>

definition ice_state_read :: "service \<Rightarrow> string" where
  "ice_state_read s =
     (case pc s of None \<Rightarrow> ''unknown'' | Some p \<Rightarrow> ice_string (iceConnectionState p))"

definition pc_state_read :: "service \<Rightarrow> string" where
  "pc_state_read s =
     (case pc s of None \<Rightarrow> ''unknown'' | Some p \<Rightarrow> pc_string (connectionState p))"

definition oniceconnectionstatechange :: "service \<Rightarrow> service" where
  "oniceconnectionstatechange s0 =
     (let state = ice_state_read s0;
          s = console Log ''[RTVI] ICE connection state:'' s0;
          s = invoke onConnectionStateChange (OnConnectionStateChange state) s
      in if state = ''disconnected'' \<or> state = ''failed'' \<or> state = ''closed''
         then s\<lparr>connected := False\<rparr> else s)"

definition onconnectionstatechange :: "service \<Rightarrow> service" where
  "onconnectionstatechange s0 =
     (let state = pc_state_read s0;
          s = console Log ''[RTVI] Peer connection state:'' s0
      in if state = ''connected'' then s\<lparr>connected := True\<rparr>
         else if state = ''disconnected'' \<or> state = ''failed'' \<or> state = ''closed''
         then s\<lparr>connected := False\<rparr> else s)"

text \<open>
  \<^verbatim>\<open>pc.onicecandidate\<close>, with \<^verbatim>\<open>event.candidate\<close> and the outcome of the PATCH request
  (\<open>Some e\<close> when \<^verbatim>\<open>fetch\<close> rejects with \<open>e\<close>). \<^verbatim>\<open>this.sessionId\<close> is truthy when it is
  a non-empty string.
\<close>

definition onicecandidate :: "string option \<Rightarrow> js_error option \<Rightarrow> service \<Rightarrow> service" where
  "onicecandidate candidate outcome s =
     (case (candidate, sessionId s) of
        (Some c, Some sid) \<Rightarrow>
          if sid \<noteq> '''' then
            (let s1 = emit (Fetch ''PATCH'' (svc_serverUrl s @ ''/sessions/'' @ sid @ ''/api/offer'')) s
             in case outcome of
                  Some e \<Rightarrow> console Warn ''[RTVI] Failed to send ICE candidate:'' s1
                | None \<Rightarrow> s1)
          else s
      | _ \<Rightarrow> s)"

subsection \<open>Data-channel handlers\<close>

definition setupDataChannelHandlers :: "service \<Rightarrow> service" where
  "setupDataChannelHandlers s =
     (case dc s of None \<Rightarrow> s | Some d \<Rightarrow> s\<lparr>dc := Some (d\<lparr>dc_handlersSet := True\<rparr>)\<rparr>)"

text \<open>\<^verbatim>\<open>pc.ondatachannel\<close>, with \<^verbatim>\<open>event.channel\<close>.\<close>

definition ondatachannel :: "RTCDataChannel \<Rightarrow> service \<Rightarrow> service" where
  "ondatachannel channel s0 =
     (let s = console Log ''[RTVI] Data channel received:'' s0;
          s = s\<lparr>dc := Some channel\<rparr>
      in setupDataChannelHandlers s)"

text \<open>
  \<^verbatim>\<open>sendClientReady\<close>. The argument is the string \<^verbatim>\<open>crypto.randomUUID()\<close> returns on
  this call; \<^verbatim>\<open>slice(0, 8)\<close> keeps its first eight characters.
\<close>

definition sendClientReady :: "string \<Rightarrow> service \<Rightarrow> service" where
  "sendClientReady uuid s =
     (if (case dc s of None \<Rightarrow> True | Some d \<Rightarrow> readyState d \<noteq> DcOpen) then
        console Warn ''[RTVI] Cannot send client-ready: data channel not open'' s
      else
        (let clientReadyMessage =
               \<lparr>cr_label = ''rtvi-ai'', cr_type = ''client-ready'', cr_id = take 8 uuid,
                cr_version = ''1.0.0''\<rparr>;
             s1 = emit (DcSend clientReadyMessage) s
         in console Log ''[RTVI] Sent client-ready message'' s1))"

definition onopen :: "string \<Rightarrow> service \<Rightarrow> service" where
  "onopen uuid s = sendClientReady uuid (console Log ''[RTVI] Data channel open'' s)"

definition onclose :: "service \<Rightarrow> service" where
  "onclose s = console Log ''[RTVI] Data channel closed'' s"

text \<open>
  \<^verbatim>\<open>dc.onmessage\<close>. \<open>JSON_parse\<close> is the platform's \<^verbatim>\<open>JSON.parse\<close> read at the declared
  type \<^verbatim>\<open>RTVIMessage\<close>: \<open>Inl e\<close> when it throws \<open>e\<close>.
\<close>

definition onmessage :: "(string \<Rightarrow> js_error + RTVIMessage) \<Rightarrow> string \<Rightarrow> service \<Rightarrow> service" where
  "onmessage JSON_parse data s =
     (case JSON_parse data of
        Inr message \<Rightarrow> handleRTVIMessage message s
      | Inl e \<Rightarrow> console Warn ''[RTVI] Failed to parse message:'' s)"

subsection \<open>disconnect, setMicMuted, isMicMuted\<close>

definition disconnect :: "service \<Rightarrow> service" where
  "disconnect s0 =
     (let s = console Log ''[RTVI] Disconnecting...'' s0;
          s = (case localStream s of
                 Some tracks \<Rightarrow>
                   (emit_all (map (\<lambda>t. TrackStop (track_id t)) tracks) s)\<lparr>localStream := None\<rparr>
               | None \<Rightarrow> s);
          s = (case remoteAudio s of
                 Some a \<Rightarrow> (emit AudioDetach s)\<lparr>remoteAudio := None\<rparr>
               | None \<Rightarrow> s);
          s = (case dc s of
                 Some d \<Rightarrow> (emit DcClose s)\<lparr>dc := None\<rparr>
               | None \<Rightarrow> s);
          s = (case pc s of
                 Some p \<Rightarrow> (emit PcClose s)\<lparr>pc := None\<rparr>
               | None \<Rightarrow> s);
          s = s\<lparr>connected := False\<rparr>;
          s = s\<lparr>sessionId := None\<rparr>;
          s = s\<lparr>accumulatedBotText := ''''\<rparr>;
          s = invoke onConnectionStateChange (OnConnectionStateChange ''disconnected'') s
      in console Log ''[RTVI] Disconnected'' s)"

definition setMicMuted :: "bool \<Rightarrow> service \<Rightarrow> service" where
  "setMicMuted muted s =
     (case localStream s of
        Some tracks \<Rightarrow>
          (let s1 = s\<lparr>localStream :=
                       Some (map (\<lambda>t. if kind t = Audio then t\<lparr>enabled := \<not> muted\<rparr> else t) tracks)\<rparr>
           in console Log (if muted then ''[RTVI] Mic muted'' else ''[RTVI] Mic unmuted'') s1)
      | None \<Rightarrow> s)"

definition isMicMuted :: "service \<Rightarrow> bool" where
  "isMicMuted s =
     (case localStream s of
        None \<Rightarrow> True
      | Some tracks \<Rightarrow>
          (case filter (\<lambda>t. kind t = Audio) tracks of
             [] \<Rightarrow> True
           | audioTrack # _ \<Rightarrow> \<not> enabled audioTrack))"

subsection \<open>connect\<close>

text \<open>
  What the outside world answers during one run of \<^verbatim>\<open>connect\<close>: the two HTTP
  exchanges, the constructor of the peer connection, the media request and the three
  calls on the peer connection. \<open>Inl e\<close> (or \<open>Some e\<close>) is a rejection or throw with
  \<open>e\<close>. No browser event is delivered between the steps of one run.
\<close>

record 'a Response =
  status :: nat
  json :: "js_error + 'a"

text \<open>\<^verbatim>\<open>Response.ok\<close> of the Fetch standard: the status is in the range 200 to 299.\<close>

definition ok :: "'a Response \<Rightarrow> bool" where
  "ok r = (200 \<le> status r \<and> status r \<le> 299)"

record IceConfig =
  cfg_iceServers :: "string list option"

record StartBody =
  body_sessionId :: string
  body_iceConfig :: "IceConfig option"

record Answer =
  ans_type :: string
  ans_sdp :: string
  ans_pc_id :: string

record ConnectEnv =
  fetch_start :: "js_error + StartBody Response"
  newPeerConnection :: "js_error option"
  getUserMedia :: "js_error + MediaStreamTrack list"
  createOffer :: "js_error + SessionDescription"
  setLocalDescription :: "js_error option"
  fetch_offer :: "js_error + Answer Response"
  setRemoteDescription :: "js_error option"

text \<open>A status code inside a template literal: its decimal digits.\<close>

fun string_of_nat :: "nat \<Rightarrow> string" where
  "string_of_nat n =
     (if n < 10 then [char_of (48 + n)]
      else string_of_nat (n div 10) @ [char_of (48 + n mod 10)])"

declare string_of_nat.simps [simp del]

text \<open>Step 3 of the try block: the local stream.\<close>

definition connect_media :: "ConnectEnv \<Rightarrow> RTVIConfig \<Rightarrow> service \<Rightarrow> js_error option \<times> service" where
  "connect_media env config s0 =
     (if enableMic config \<noteq> Some False then
        (let s = console Log ''[RTVI] Requesting microphone access...'' s0;
             s = emit (GetUserMedia (enableCam config = Some True)) s
         in case getUserMedia env of
              Inl e \<Rightarrow> (Some e, s)
            | Inr tracks \<Rightarrow>
                (let s = s\<lparr>localStream := Some tracks\<rparr>;
                     s = emit_all (map (\<lambda>t. AddTrack (track_id t)) tracks) s
                 in (None, console Log ''[RTVI] Local audio track added'' s)))
      else (None, s0))"

text \<open>Steps 4 to 6: offer, answer, remote description, and the report of the connection.\<close>

definition connect_offer :: "ConnectEnv \<Rightarrow> string \<Rightarrow> service \<Rightarrow> js_error option \<times> service" where
  "connect_offer env sid s0 =
     (let s = console Log ''[RTVI] Creating WebRTC offer...'' s0 in
      case createOffer env of
        Inl e \<Rightarrow> (Some e, s)
      | Inr offer \<Rightarrow>
     (case setLocalDescription env of
        Some e \<Rightarrow> (Some e, s)
      | None \<Rightarrow>
     (let s = s\<lparr>pc := map_option (\<lambda>p. p\<lparr>localDescription := Some offer\<rparr>) (pc s)\<rparr>;
          s = emit (Fetch ''POST'' (svc_serverUrl s @ ''/sessions/'' @ sid @ ''/api/offer'')) s
      in case fetch_offer env of
        Inl e \<Rightarrow> (Some e, s)
      | Inr offerResponse \<Rightarrow>
     (if \<not> ok offerResponse then
        (Some (new_Error (''Failed to send offer: '' @ string_of_nat (status offerResponse))), s)
      else
     (case json offerResponse of
        Inl e \<Rightarrow> (Some e, s)
      | Inr answer \<Rightarrow>
     (let s = console Log ''[RTVI] Received answer, pc_id:'' s in
      case setRemoteDescription env of
        Some e \<Rightarrow> (Some e, s)
      | None \<Rightarrow>
     (let s = s\<lparr>pc := map_option
                    (\<lambda>p. p\<lparr>remoteDescription :=
                              Some (SessionDescription (ans_type answer) (ans_sdp answer))\<rparr>)
                    (pc s)\<rparr>;
          s = s\<lparr>connected := True\<rparr>;
          s = invoke onConnectionStateChange (OnConnectionStateChange ''connected'') s
      in (None, console Log ''[RTVI] WebRTC connection established'' s))))))))"

text \<open>
  The try block: \<open>(None, s)\<close> when it runs to its end, \<open>(Some e, s)\<close> when \<open>e\<close> is
  thrown with the service in state \<open>s\<close>.
\<close>

definition connect_try :: "ConnectEnv \<Rightarrow> RTVIConfig \<Rightarrow> service \<Rightarrow> js_error option \<times> service" where
  "connect_try env config s0 =
     (let s = console Log ''[RTVI] Creating session...'' s0;
          s = emit (Fetch ''POST'' (svc_serverUrl s @ ''/start'')) s
      in case fetch_start env of
        Inl e \<Rightarrow> (Some e, s)
      | Inr startResponse \<Rightarrow>
     (if \<not> ok startResponse then
        (Some (new_Error (''Failed to create session: '' @ string_of_nat (status startResponse))), s)
      else
     (case json startResponse of
        Inl e \<Rightarrow> (Some e, s)
      | Inr body \<Rightarrow>
     (let s = s\<lparr>sessionId := Some (body_sessionId body)\<rparr>;
          s = console Log ''[RTVI] Session created:'' s;
          servers = (case body_iceConfig body of
                       None \<Rightarrow> [''stun:stun.l.google.com:19302'']
                     | Some c \<Rightarrow>
                         (case cfg_iceServers c of
                            None \<Rightarrow> [''stun:stun.l.google.com:19302'']
                          | Some l \<Rightarrow> l))
      in case newPeerConnection env of
        Some e \<Rightarrow> (Some e, s)
      | None \<Rightarrow>
     (let s = s\<lparr>pc := Some \<lparr>iceServers = servers, iceConnectionState = IceNew,
                             connectionState = PcNew, localDescription = None,
                             remoteDescription = None, handlersSet = False\<rparr>\<rparr>;
          s = setupPeerConnectionHandlers s
      in case connect_media env config s of
        (Some e, s) \<Rightarrow> (Some e, s)
      | (None, s) \<Rightarrow> connect_offer env (body_sessionId body) s)))))"

text \<open>
  \<^verbatim>\<open>connect\<close>: \<open>Inr ()\<close> when the promise resolves, \<open>Inl e\<close> when it rejects with \<open>e\<close>,
  and the service afterwards.
\<close>

definition connect :: "ConnectEnv \<Rightarrow> RTVIConfig \<Rightarrow> RTVICallbacks \<Rightarrow> service \<Rightarrow> (js_error + unit) \<times> service" where
  "connect env config cbs s0 =
     (let s = s0\<lparr>svc_serverUrl := serverUrl config\<rparr>;
          s = s\<lparr>callbacks := cbs\<rparr>;
          s = s\<lparr>accumulatedBotText := ''''\<rparr>
      in case connect_try env config s of
           (None, s1) \<Rightarrow> (Inr (), s1)
         | (Some err, s1) \<Rightarrow>
             (let s2 = console Err ''[RTVI] Connection error:'' s1;
                  s2 = invoke onError (OnError err) s2;
                  s2 = disconnect s2
              in (Inl err, s2)))"

subsection \<open>Runs of the service\<close>

text \<open>
  The events of the browser. Each one first changes the object it is about (when the
  service still references one) and then runs the attached handler. When the field is
  null the event comes from an object the service has dropped, whose handler is still
  attached and reads the null field.
\<close>

datatype event =
    EvTrack track_kind "string list"
  | EvDataChannel RTCDataChannel
  | EvIceConnectionStateChange RTCIceConnectionState
  | EvConnectionStateChange RTCPeerConnectionState
  | EvIceCandidate "string option" "js_error option"
  | EvDcOpen string
  | EvDcClose
  | EvDcMessage string

definition pc_handler :: "(service \<Rightarrow> service) \<Rightarrow> service \<Rightarrow> service" where
  "pc_handler h s = (case pc s of None \<Rightarrow> h s | Some p \<Rightarrow> if handlersSet p then h s else s)"

definition dc_handler :: "(service \<Rightarrow> service) \<Rightarrow> service \<Rightarrow> service" where
  "dc_handler h s = (case dc s of None \<Rightarrow> h s | Some d \<Rightarrow> if dc_handlersSet d then h s else s)"

definition set_pc :: "(RTCPeerConnection \<Rightarrow> RTCPeerConnection) \<Rightarrow> service \<Rightarrow> service" where
  "set_pc f s = s\<lparr>pc := map_option f (pc s)\<rparr>"

definition set_dc :: "(RTCDataChannel \<Rightarrow> RTCDataChannel) \<Rightarrow> service \<Rightarrow> service" where
  "set_dc f s = s\<lparr>dc := map_option f (dc s)\<rparr>"

fun fire :: "(string \<Rightarrow> js_error + RTVIMessage) \<Rightarrow> event \<Rightarrow> service \<Rightarrow> service" where
  "fire P (EvTrack k streams) s = pc_handler (ontrack k streams) s"
| "fire P (EvDataChannel channel) s = pc_handler (ondatachannel channel) s"
| "fire P (EvIceConnectionStateChange st) s =
     pc_handler oniceconnectionstatechange (set_pc (\<lambda>p. p\<lparr>iceConnectionState := st\<rparr>) s)"
| "fire P (EvConnectionStateChange st) s =
     pc_handler onconnectionstatechange (set_pc (\<lambda>p. p\<lparr>connectionState := st\<rparr>) s)"
| "fire P (EvIceCandidate candidate outcome) s = pc_handler (onicecandidate candidate outcome) s"
| "fire P (EvDcOpen uuid) s = dc_handler (onopen uuid) (set_dc (\<lambda>d. d\<lparr>readyState := DcOpen\<rparr>) s)"
| "fire P EvDcClose s = dc_handler onclose (set_dc (\<lambda>d. d\<lparr>readyState := DcClosed\<rparr>) s)"
| "fire P (EvDcMessage data) s = dc_handler (onmessage P data) s"

text \<open>One step of a run: a call of the public interface or an event.\<close>

datatype step =
    Connect ConnectEnv RTVIConfig RTVICallbacks
  | Disconnect
  | SetMicMuted bool
  | Event event

fun exec :: "(string \<Rightarrow> js_error + RTVIMessage) \<Rightarrow> step \<Rightarrow> service \<Rightarrow> service" where
  "exec P (Connect env config cbs) s = snd (connect env config cbs s)"
| "exec P Disconnect s = disconnect s"
| "exec P (SetMicMuted muted) s = setMicMuted muted s"
| "exec P (Event ev) s = fire P ev s"

fun run :: "(string \<Rightarrow> js_error + RTVIMessage) \<Rightarrow> step list \<Rightarrow> service \<Rightarrow> service" where
  "run P [] s = s"
| "run P (st # sts) s = run P sts (exec P st s)"

subsection \<open>Vocabulary of the properties\<close>

text \<open>The message types of the source's \<^verbatim>\<open>RTVIMessageType\<close>, the cases of the dispatch.\<close>

definition RTVIMessageType :: "string list" where
  "RTVIMessageType =
     [''user-transcription'', ''bot-llm-text'', ''bot-llm-started'', ''bot-llm-stopped'',
      ''bot-tts-text'', ''bot-tts-started'', ''bot-tts-stopped'', ''user-started-speaking'',
      ''user-stopped-speaking'', ''bot-started-speaking'', ''bot-stopped-speaking'', ''error'']"

definition is_bot_text :: "RTVIMessage \<Rightarrow> bool" where
  "is_bot_text message = (msg_type message = ''bot-llm-text'' \<or> msg_type message = ''bot-tts-text'')"

text \<open>
  A message the dispatch has no case for, and a message whose case finds its payload
  field missing (for \<^verbatim>\<open>error\<close>: absent or the empty string, which is falsy).
\<close>

definition no_dispatch :: "RTVIMessage \<Rightarrow> bool" where
  "no_dispatch message = (msg_type message \<notin> set RTVIMessageType)"

definition missing_payload :: "RTVIMessage \<Rightarrow> bool" where
  "missing_payload message =
     ((msg_type message = ''user-transcription'' \<or> msg_type message = ''bot-llm-text''
         \<or> msg_type message = ''bot-tts-text'') \<and> data_text message = None
      \<or> msg_type message = ''error''
         \<and> (data_error message = None \<or> data_error message = Some ''''))"

definition error_message :: "string option \<Rightarrow> RTVIMessage" where
  "error_message e =
     \<lparr>msg_type = ''error'', msg_data = Some \<lparr>d_text = None, d_final = None, d_error = e\<rparr>\<rparr>"

text \<open>A local stream of one microphone track and one camera track, both enabled.\<close>

definition mic_and_cam :: "MediaStreamTrack list" where
  "mic_and_cam = [\<lparr>track_id = ''mic'', kind = Audio, enabled = True\<rparr>,
                  \<lparr>track_id = ''cam'', kind = Video, enabled = True\<rparr>]"

text \<open>The state \<open>s'\<close> reached from \<open>s\<close>, with what the run added to the log put after \<open>t\<close>.\<close>

definition relog :: "effect list \<Rightarrow> service \<Rightarrow> service \<Rightarrow> service" where
  "relog t s s' = s'\<lparr>effects := t @ since s s'\<rparr>"

text \<open>
  A world in which every step of \<^verbatim>\<open>connect\<close> succeeds: the server answers both requests
  with status 200, the microphone is granted, the peer connection accepts both
  descriptions.
\<close>

definition ok_env :: ConnectEnv where
  "ok_env =
     \<lparr>fetch_start = Inr \<lparr>status = 200, json = Inr \<lparr>body_sessionId = ''s1'', body_iceConfig = None\<rparr>\<rparr>,
      newPeerConnection = None,
      getUserMedia = Inr [\<lparr>track_id = ''mic'', kind = Audio, enabled = True\<rparr>],
      createOffer = Inr (SessionDescription ''offer'' ''v=0''),
      setLocalDescription = None,
      fetch_offer = Inr \<lparr>status = 200,
                          json = Inr \<lparr>ans_type = ''answer'', ans_sdp = ''v=0'', ans_pc_id = ''pc1''\<rparr>\<rparr>,
      setRemoteDescription = None\<rparr>"

text \<open>The same world, except that the session-creation endpoint answers with status 503.\<close>

definition start_503_env :: ConnectEnv where
  "start_503_env = ok_env\<lparr>fetch_start := Inr \<lparr>status = 503, json = Inl (JsError ''SyntaxError'' '''')\<rparr>\<rparr>"

definition demo_config :: RTVIConfig where
  "demo_config = \<lparr>serverUrl = ''http://x'', enableMic = None, enableCam = None\<rparr>"

text \<open>A parser that rejects every frame, for runs that carry no control message.\<close>

definition reject_all :: "string \<Rightarrow> js_error + RTVIMessage" where
  "reject_all data = Inl (JsError ''SyntaxError'' data)"

text \<open>The service after a successful \<^verbatim>\<open>connect\<close> on a new instance, all callbacks supplied.\<close>

definition connected_service :: service where
  "connected_service = snd (connect ok_env demo_config all_callbacks new_service)"

text \<open>The terminal values of the two transport signals.\<close>

definition ice_terminal :: "RTCIceConnectionState \<Rightarrow> bool" where
  "ice_terminal st = (st = IceDisconnected \<or> st = IceFailed \<or> st = IceClosed)"

definition pc_terminal :: "RTCPeerConnectionState \<Rightarrow> bool" where
  "pc_terminal st = (st = PcDisconnected \<or> st = PcFailed \<or> st = PcClosed)"

text \<open>
  The conditions under which no step of \<^verbatim>\<open>connect\<close> throws: the media request, steps 4 to
  6, and the whole try block. A response passes when its status is a success status and
  its body parses.
\<close>

definition passes :: "js_error + 'a Response \<Rightarrow> bool" where
  "passes res = (case res of Inl e \<Rightarrow> False | Inr r \<Rightarrow> ok r \<and> \<not> isl (json r))"

definition media_succeeds :: "ConnectEnv \<Rightarrow> RTVIConfig \<Rightarrow> bool" where
  "media_succeeds env config = (enableMic config = Some False \<or> \<not> isl (getUserMedia env))"

definition offer_succeeds :: "ConnectEnv \<Rightarrow> bool" where
  "offer_succeeds env =
     (\<not> isl (createOffer env) \<and> setLocalDescription env = None \<and> passes (fetch_offer env)
      \<and> setRemoteDescription env = None)"

definition all_steps_succeed :: "ConnectEnv \<Rightarrow> RTVIConfig \<Rightarrow> bool" where
  "all_steps_succeed env config =
     (passes (fetch_start env) \<and> newPeerConnection env = None \<and> media_succeeds env config
      \<and> offer_succeeds env)"

text \<open>The callbacks \<^verbatim>\<open>connect\<close> makes when it reports the connection.\<close>

definition connected_calls :: "RTVICallbacks \<Rightarrow> callback_event list" where
  "connected_calls cbs =
     (if onConnectionStateChange cbs then [OnConnectionStateChange ''connected''] else [])"

text \<open>The log of \<open>s'\<close> continues the log of \<open>s\<close>.\<close>

definition extends :: "service \<Rightarrow> service \<Rightarrow> bool" where
  "extends s s' = (take (length (effects s)) (effects s') = effects s)"

text \<open>
  The same world as \<open>ok_env\<close>, except that the offer endpoint answers with status 500,
  after the microphone has been acquired.
\<close>

definition offer_500_env :: ConnectEnv where
  "offer_500_env = ok_env\<lparr>fetch_offer := Inr \<lparr>status = 500, json = Inl (JsError ''SyntaxError'' '''')\<rparr>\<rparr>"

text \<open>The first three assignments of \<^verbatim>\<open>connect\<close>, before the try block.\<close>

definition connect_init :: "RTVIConfig \<Rightarrow> RTVICallbacks \<Rightarrow> service \<Rightarrow> service" where
  "connect_init config cbs s =
     s\<lparr>svc_serverUrl := serverUrl config, callbacks := cbs, accumulatedBotText := ''''\<rparr>"

text \<open>The fixed part of the handshake frame, and the steps that are a channel-open event.\<close>

definition is_client_ready :: "ClientReadyMessage \<Rightarrow> bool" where
  "is_client_ready m =
     (cr_label m = ''rtvi-ai'' \<and> cr_type m = ''client-ready'' \<and> cr_version m = ''1.0.0'')"

fun is_open_event :: "step \<Rightarrow> bool" where
  "is_open_event (Event (EvDcOpen uuid)) = True"
| "is_open_event _ = False"

text \<open>A data channel as the browser announces it, and a UUID as \<^verbatim>\<open>crypto.randomUUID\<close> returns it.\<close>

definition announced_channel :: RTCDataChannel where
  "announced_channel = \<lparr>dc_label = ''rtvi'', readyState = DcOpen, dc_handlersSet = False\<rparr>"

definition demo_uuid :: string where
  "demo_uuid = ''3b241101-e2bb-4255-8caf-4136c566a962''"

text \<open>Events delivered one after the other.\<close>

fun fire_all :: "(string \<Rightarrow> js_error + RTVIMessage) \<Rightarrow> event list \<Rightarrow> service \<Rightarrow> service" where
  "fire_all P [] s = s"
| "fire_all P (ev # evs) s = fire_all P evs (fire P ev s)"

text \<open>A parser that accepts exactly one frame, as a \<^verbatim>\<open>bot-llm-text\<close> message carrying "Hi".\<close>

definition accept_hi :: "string \<Rightarrow> js_error + RTVIMessage" where
  "accept_hi data =
     (if data = ''hi'' then Inr (fragment ''bot-llm-text'' ''Hi'')
      else Inl (JsError ''SyntaxError'' data))"

text \<open>
  The state in which the try block of \<^verbatim>\<open>connect\<close> ends: on a failure, the state at the
  throw, on which the catch block then works.
\<close>

definition at_throw :: "ConnectEnv \<Rightarrow> RTVIConfig \<Rightarrow> RTVICallbacks \<Rightarrow> service \<Rightarrow> service" where
  "at_throw env config cbs s = snd (connect_try env config (connect_init config cbs s))"

text \<open>
  The release of every object a service references, in the order of \<^verbatim>\<open>disconnect\<close>: each
  track of the local stream stopped, the playback sink detached, the data channel
  closed, the peer connection closed.
\<close>

definition releases :: "service \<Rightarrow> effect list" where
  "releases s =
     (case localStream s of Some tracks \<Rightarrow> map (\<lambda>t. TrackStop (track_id t)) tracks | None \<Rightarrow> [])
     @ (case remoteAudio s of Some a \<Rightarrow> [AudioDetach] | None \<Rightarrow> [])
     @ (case dc s of Some d \<Rightarrow> [DcClose] | None \<Rightarrow> [])
     @ (case pc s of Some p \<Rightarrow> [PcClose] | None \<Rightarrow> [])"

text \<open>A service that references no browser object, as when new or after \<^verbatim>\<open>disconnect\<close>.\<close>

definition holds_nothing :: "service \<Rightarrow> bool" where
  "holds_nothing s =
     (pc s = None \<and> dc s = None \<and> localStream s = None \<and> remoteAudio s = None)"

text \<open>
  What one run of \<^verbatim>\<open>connect\<close> acquires, read off the answers of the world: the peer
  connection is built when session creation passes and the constructor does not throw;
  the local stream is the one the media request delivers, when the run gets that far
  and the microphone is not switched off.
\<close>

definition pc_built :: "ConnectEnv \<Rightarrow> bool" where
  "pc_built env = (passes (fetch_start env) \<and> newPeerConnection env = None)"

definition acquired :: "ConnectEnv \<Rightarrow> RTVIConfig \<Rightarrow> MediaStreamTrack list option" where
  "acquired env config =
     (if pc_built env \<and> enableMic config \<noteq> Some False
      then (case getUserMedia env of Inr tracks \<Rightarrow> Some tracks | Inl e \<Rightarrow> None)
      else None)"

text \<open>
  A world for a second \<^verbatim>\<open>connect\<close> on a service that is still connected: the media
  request delivers a new microphone track and the offer endpoint answers with status 500.
\<close>

definition reconnect_500_env :: ConnectEnv where
  "reconnect_500_env =
     offer_500_env\<lparr>getUserMedia := Inr [\<lparr>track_id = ''mic2'', kind = Audio, enabled = True\<rparr>]\<rparr>"

text \<open>How many peer connections a stretch of the log closes.\<close>

fun closes :: "effect list \<Rightarrow> nat" where
  "closes [] = 0"
| "closes (PcClose # es) = Suc (closes es)"
| "closes (_ # es) = closes es"

text \<open>The releases among a stretch of the log.\<close>

fun release_effects :: "effect list \<Rightarrow> effect list" where
  "release_effects [] = []"
| "release_effects (TrackStop i # es) = TrackStop i # release_effects es"
| "release_effects (AudioDetach # es) = AudioDetach # release_effects es"
| "release_effects (DcClose # es) = DcClose # release_effects es"
| "release_effects (PcClose # es) = PcClose # release_effects es"
| "release_effects (_ # es) = release_effects es"

section \<open>Properties\<close>

subsection \<open>Auxiliary facts about the log\<close>

lemma since_append: "effects s' = effects s @ es \<Longrightarrow> since s s' = es"
  by (simp add: since_def)

lemma calls_append: "calls (xs @ ys) = calls xs @ calls ys"
  by (induction xs rule: calls.induct) simp_all

lemma sends_append: "sends (xs @ ys) = sends xs @ sends ys"
  by (induction xs rule: sends.induct) simp_all

lemma effects_console: "effects (console lvl msg s) = effects s @ [Console lvl msg]"
  by (simp add: console_def emit_def)

lemma effects_invoke:
  "effects (invoke f ev s) = effects s @ (if f (callbacks s) then [Call ev] else [])"
  by (simp add: invoke_def emit_def)

lemma handle_bot_text:
  assumes "is_bot_text message" and "data_text message = Some txt"
  shows "handleRTVIMessage message s =
           invoke onBotTranscript (OnBotTranscript (accumulatedBotText s @ txt))
             ((console Log ''[RTVI] Message:'' s)\<lparr>accumulatedBotText := accumulatedBotText s @ txt\<rparr>)"
  using assms
  by (auto simp: handleRTVIMessage_def is_bot_text_def Let_def console_def emit_def)

lemma handle_bot_text_effects:
  assumes "is_bot_text message" and "data_text message = Some txt"
  shows "effects (handleRTVIMessage message s) =
           effects s @ Console Log ''[RTVI] Message:'' #
             (if onBotTranscript (callbacks s)
              then [Call (OnBotTranscript (accumulatedBotText s @ txt))] else [])"
    and "accumulatedBotText (handleRTVIMessage message s) = accumulatedBotText s @ txt"
    and "callbacks (handleRTVIMessage message s) = callbacks s"
  by (simp_all add: handle_bot_text [OF assms] invoke_def emit_def console_def)

lemma handle_llm_started:
  assumes "msg_type message = ''bot-llm-started''"
  shows "handleRTVIMessage message s =
           (console Log ''[RTVI] Message:'' s)\<lparr>accumulatedBotText := ''''\<rparr>"
  using assms by (simp add: handleRTVIMessage_def Let_def)

subsection \<open>Bot transcript accumulation\<close>

text \<open>
  Claim C2. A \<^verbatim>\<open>bot-llm-text\<close> or \<^verbatim>\<open>bot-tts-text\<close> message that carries a text fragment
  appends the fragment to the accumulated bot text, and the bot-transcript callback (when
  the caller supplied one) is invoked once, with the whole accumulated text. For two such
  messages in a row the callback receives the buffer extended by the first fragment and
  then by both: from an empty buffer, "Hel" and then "Hello".
\<close>

theorem bot_text_cumulative:
  assumes "is_bot_text m1" and "data_text m1 = Some a"
    and "is_bot_text m2" and "data_text m2 = Some b"
  shows "accumulatedBotText (handleRTVIMessage m1 s) = accumulatedBotText s @ a
       \<and> calls (since s (handleRTVIMessage m1 s)) =
           (if onBotTranscript (callbacks s)
            then [OnBotTranscript (accumulatedBotText s @ a)] else [])
       \<and> calls (since s (handle_all [m1, m2] s)) =
           (if onBotTranscript (callbacks s)
            then [OnBotTranscript (accumulatedBotText s @ a),
                  OnBotTranscript (accumulatedBotText s @ a @ b)] else [])"
proof -
  let ?s1 = "handleRTVIMessage m1 s"
  note one = handle_bot_text_effects [OF assms(1,2), of s]
  note two = handle_bot_text_effects [OF assms(3,4), of ?s1]
  have "since s ?s1 = Console Log ''[RTVI] Message:'' #
          (if onBotTranscript (callbacks s)
           then [Call (OnBotTranscript (accumulatedBotText s @ a))] else [])"
    by (rule since_append) (simp add: one)
  moreover have "since s (handle_all [m1, m2] s) =
      Console Log ''[RTVI] Message:'' #
        (if onBotTranscript (callbacks s)
         then [Call (OnBotTranscript (accumulatedBotText s @ a))] else []) @
      Console Log ''[RTVI] Message:'' #
        (if onBotTranscript (callbacks s)
         then [Call (OnBotTranscript (accumulatedBotText s @ a @ b))] else [])"
    by (rule since_append) (simp add: one two)
  ultimately show ?thesis
    by (simp add: one calls_append)
qed

theorem bot_text_cumulative_witness:
  "calls (since (new_service\<lparr>callbacks := all_callbacks\<rparr>)
       (handle_all [fragment ''bot-llm-text'' ''Hel'', fragment ''bot-tts-text'' ''lo'']
          (new_service\<lparr>callbacks := all_callbacks\<rparr>))) =
     [OnBotTranscript ''Hel'', OnBotTranscript ''Hello'']"
  using bot_text_cumulative [of "fragment ''bot-llm-text'' ''Hel''" "''Hel''"
      "fragment ''bot-tts-text'' ''lo''" "''lo''" "new_service\<lparr>callbacks := all_callbacks\<rparr>"]
  by (simp add: is_bot_text_def fragment_def data_text_def new_service_def all_callbacks_def)

text \<open>
  Claim C3. A \<^verbatim>\<open>bot-llm-started\<close> message empties the accumulated bot text, changes no
  other field and invokes no callback. Hence for a fragment, then \<^verbatim>\<open>bot-llm-started\<close>,
  then a second fragment, the bot-transcript callback receives the buffer extended by the
  first fragment and then the second fragment alone: "Hi" and then "Yo" from an empty
  buffer, never "HiYo".
\<close>

theorem llm_started_resets:
  assumes "msg_type m = ''bot-llm-started''"
    and "is_bot_text m1" and "data_text m1 = Some a"
    and "is_bot_text m2" and "data_text m2 = Some b"
  shows "handleRTVIMessage m s = (console Log ''[RTVI] Message:'' s)\<lparr>accumulatedBotText := ''''\<rparr>
       \<and> accumulatedBotText (handleRTVIMessage m s) = ''''
       \<and> calls (since s (handleRTVIMessage m s)) = []
       \<and> calls (since s (handle_all [m1, m, m2] s)) =
           (if onBotTranscript (callbacks s)
            then [OnBotTranscript (accumulatedBotText s @ a), OnBotTranscript b] else [])"
proof -
  let ?s1 = "handleRTVIMessage m1 s"
  let ?s2 = "handleRTVIMessage m ?s1"
  let ?s3 = "handleRTVIMessage m2 ?s2"
  note one = handle_bot_text_effects [OF assms(2,3), of s]
  note reset = handle_llm_started [OF assms(1)]
  note two = handle_bot_text_effects [OF assms(4,5), of ?s2]
  have e2: "effects ?s2 = effects ?s1 @ [Console Log ''[RTVI] Message:'']"
    and a2: "accumulatedBotText ?s2 = []"
    and c2: "callbacks ?s2 = callbacks ?s1"
    by (simp_all add: reset [of ?s1] console_def emit_def)
  have e3: "effects ?s3 = effects s @
      Console Log ''[RTVI] Message:'' #
        (if onBotTranscript (callbacks s)
         then [Call (OnBotTranscript (accumulatedBotText s @ a))] else []) @
      Console Log ''[RTVI] Message:'' #
      Console Log ''[RTVI] Message:'' #
        (if onBotTranscript (callbacks s) then [Call (OnBotTranscript b)] else [])"
    unfolding two(1) a2 c2 e2 one by simp
  have "since s (handleRTVIMessage m s) = [Console Log ''[RTVI] Message:'']"
    by (rule since_append) (simp add: reset effects_console)
  moreover have "handle_all [m1, m, m2] s = ?s3"
    by simp
  then have "since s (handle_all [m1, m, m2] s) =
      Console Log ''[RTVI] Message:'' #
        (if onBotTranscript (callbacks s)
         then [Call (OnBotTranscript (accumulatedBotText s @ a))] else []) @
      Console Log ''[RTVI] Message:'' #
      Console Log ''[RTVI] Message:'' #
        (if onBotTranscript (callbacks s) then [Call (OnBotTranscript b)] else [])"
    using e3 by (simp only: since_append)
  ultimately show ?thesis
    by (simp add: reset calls_append)
qed

theorem llm_started_resets_witness:
  "calls (since (new_service\<lparr>callbacks := all_callbacks\<rparr>)
       (handle_all [fragment ''bot-llm-text'' ''Hi'', bare ''bot-llm-started'',
                    fragment ''bot-llm-text'' ''Yo'']
          (new_service\<lparr>callbacks := all_callbacks\<rparr>))) =
     [OnBotTranscript ''Hi'', OnBotTranscript ''Yo'']"
  using llm_started_resets [of "bare ''bot-llm-started''"
      "fragment ''bot-llm-text'' ''Hi''" "''Hi''"
      "fragment ''bot-llm-text'' ''Yo''" "''Yo''" "new_service\<lparr>callbacks := all_callbacks\<rparr>"]
  by (simp add: is_bot_text_def fragment_def bare_def data_text_def new_service_def
      all_callbacks_def)

subsection \<open>Messages without effect\<close>

lemma handle_no_dispatch:
  assumes "no_dispatch message"
  shows "handleRTVIMessage message s = console Log ''[RTVI] Message:'' s"
proof -
  from assms have
    "msg_type message \<noteq> ''user-transcription''" "msg_type message \<noteq> ''bot-llm-text''"
    "msg_type message \<noteq> ''bot-llm-started''" "msg_type message \<noteq> ''bot-llm-stopped''"
    "msg_type message \<noteq> ''bot-tts-text''" "msg_type message \<noteq> ''bot-tts-started''"
    "msg_type message \<noteq> ''bot-tts-stopped''" "msg_type message \<noteq> ''user-started-speaking''"
    "msg_type message \<noteq> ''user-stopped-speaking''" "msg_type message \<noteq> ''bot-started-speaking''"
    "msg_type message \<noteq> ''bot-stopped-speaking''" "msg_type message \<noteq> ''error''"
    unfolding no_dispatch_def RTVIMessageType_def by simp_all
  then show ?thesis
    unfolding handleRTVIMessage_def Let_def by (simp only: if_False simp_thms)
qed

lemma handle_missing_payload:
  assumes "missing_payload message"
  shows "handleRTVIMessage message s = console Log ''[RTVI] Message:'' s"
proof -
  consider "msg_type message = ''user-transcription''" "data_text message = None"
    | "msg_type message = ''bot-llm-text''" "data_text message = None"
    | "msg_type message = ''bot-tts-text''" "data_text message = None"
    | "msg_type message = ''error''" "data_error message = None"
    | "msg_type message = ''error''" "data_error message = Some []"
    using assms unfolding missing_payload_def by (elim disjE conjE; simp)
  then show ?thesis
  proof cases
    case 1 then show ?thesis by (simp add: handleRTVIMessage_def Let_def)
  next
    case 2 then show ?thesis by (simp add: handleRTVIMessage_def Let_def)
  next
    case 3 then show ?thesis by (simp add: handleRTVIMessage_def Let_def)
  next
    case 4 then show ?thesis by (simp add: handleRTVIMessage_def Let_def)
  next
    case 5 then show ?thesis by (simp add: handleRTVIMessage_def Let_def)
  qed
qed

text \<open>
  Claim C10. A message whose type is outside the dispatch table, and a dispatched
  message whose payload field is missing (\<^verbatim>\<open>user-transcription\<close>, \<^verbatim>\<open>bot-llm-text\<close> or
  \<^verbatim>\<open>bot-tts-text\<close> without text, \<^verbatim>\<open>error\<close> without an error string or with the empty
  one), only passes the console line at the head of \<^verbatim>\<open>handleRTVIMessage\<close>: no callback
  is invoked and every field of the service, the accumulated bot text included, is as
  before.
\<close>

theorem unhandled_message_no_effect:
  assumes "no_dispatch message \<or> missing_payload message"
  shows "handleRTVIMessage message s = console Log ''[RTVI] Message:'' s
       \<and> calls (since s (handleRTVIMessage message s)) = []
       \<and> svc_fields (handleRTVIMessage message s) = svc_fields s
       \<and> accumulatedBotText (handleRTVIMessage message s) = accumulatedBotText s"
proof -
  have eq: "handleRTVIMessage message s = console Log ''[RTVI] Message:'' s"
    using assms handle_no_dispatch handle_missing_payload by blast
  have "since s (console Log ''[RTVI] Message:'' s) = [Console Log ''[RTVI] Message:'']"
    by (rule since_append) (simp add: effects_console)
  then show ?thesis
    by (simp add: eq) (simp add: console_def emit_def svc_fields_def)
qed

theorem unhandled_message_no_effect_witness:
  "handleRTVIMessage (bare ''bot-transcription'') (new_service\<lparr>accumulatedBotText := ''Hi''\<rparr>) =
     console Log ''[RTVI] Message:'' (new_service\<lparr>accumulatedBotText := ''Hi''\<rparr>)
   \<and> handleRTVIMessage (error_message (Some '''')) (new_service\<lparr>callbacks := all_callbacks\<rparr>) =
     console Log ''[RTVI] Message:'' (new_service\<lparr>callbacks := all_callbacks\<rparr>)
   \<and> handleRTVIMessage (bare ''bot-llm-text'') (new_service\<lparr>callbacks := all_callbacks\<rparr>) =
     console Log ''[RTVI] Message:'' (new_service\<lparr>callbacks := all_callbacks\<rparr>)"
  using unhandled_message_no_effect [of "bare ''bot-transcription''"
      "new_service\<lparr>accumulatedBotText := ''Hi''\<rparr>"]
    unhandled_message_no_effect [of "error_message (Some '''')"
      "new_service\<lparr>callbacks := all_callbacks\<rparr>"]
    unhandled_message_no_effect [of "bare ''bot-llm-text''"
      "new_service\<lparr>callbacks := all_callbacks\<rparr>"]
  by (simp add: no_dispatch_def missing_payload_def RTVIMessageType_def bare_def
      error_message_def data_text_def data_error_def)

subsection \<open>Microphone\<close>

lemma isMicMuted_all_disabled:
  "\<forall>t \<in> set tracks. kind t = Audio \<longrightarrow> \<not> enabled t \<Longrightarrow>
     (case filter (\<lambda>t. kind t = Audio) tracks of [] \<Rightarrow> True | t # _ \<Rightarrow> \<not> enabled t)"
  by (induction tracks) auto

lemma disconnect_fields:
  "pc (disconnect s) = None" "dc (disconnect s) = None" "localStream (disconnect s) = None"
  "remoteAudio (disconnect s) = None" "sessionId (disconnect s) = None"
  "\<not> connected (disconnect s)" "accumulatedBotText (disconnect s) = ''''"
  "svc_serverUrl (disconnect s) = svc_serverUrl s" "callbacks (disconnect s) = callbacks s"
  by (simp_all add: disconnect_def Let_def console_def invoke_def emit_def emit_all_def
      split: option.splits)

text \<open>
  Claim C9. \<^verbatim>\<open>setMicMuted(true)\<close> keeps every track of the local stream (same tracks,
  same kinds, in the same order) and leaves each audio track disabled, so \<^verbatim>\<open>isMicMuted\<close>
  then reads true. When there is no local stream, on a new service and after
  \<^verbatim>\<open>disconnect\<close>, \<^verbatim>\<open>isMicMuted\<close> reads true.
\<close>

theorem mute_disables_audio_tracks:
  "isMicMuted (setMicMuted True s)
   \<and> (\<forall>tracks. localStream s = Some tracks \<longrightarrow>
        (\<exists>tracks'. localStream (setMicMuted True s) = Some tracks'
           \<and> map track_id tracks' = map track_id tracks
           \<and> map kind tracks' = map kind tracks
           \<and> (\<forall>t \<in> set tracks'. kind t = Audio \<longrightarrow> \<not> enabled t)))
   \<and> (localStream s = None \<longrightarrow> isMicMuted s)
   \<and> isMicMuted new_service
   \<and> isMicMuted (disconnect s)"
proof -
  have "isMicMuted (setMicMuted True s)"
  proof (cases "localStream s")
    case None
    then show ?thesis by (simp add: setMicMuted_def isMicMuted_def)
  next
    case (Some tracks)
    let ?tracks' = "map (\<lambda>t. if kind t = Audio then t\<lparr>enabled := \<not> True\<rparr> else t) tracks"
    have "\<forall>t \<in> set ?tracks'. kind t = Audio \<longrightarrow> \<not> enabled t"
      by auto
    then have "case filter (\<lambda>t. kind t = Audio) ?tracks' of [] \<Rightarrow> True | t # _ \<Rightarrow> \<not> enabled t"
      by (rule isMicMuted_all_disabled)
    moreover have "localStream (setMicMuted True s) = Some ?tracks'"
      using Some by (simp add: setMicMuted_def console_def emit_def)
    ultimately show ?thesis
      by (simp only: isMicMuted_def option.case)
  qed
  moreover have "\<exists>tracks'. localStream (setMicMuted True s) = Some tracks'
           \<and> map track_id tracks' = map track_id tracks
           \<and> map kind tracks' = map kind tracks
           \<and> (\<forall>t \<in> set tracks'. kind t = Audio \<longrightarrow> \<not> enabled t)"
    if "localStream s = Some tracks" for tracks
    using that by (auto simp: setMicMuted_def console_def emit_def)
  moreover have "isMicMuted (disconnect s)"
    by (simp add: isMicMuted_def disconnect_fields)
  ultimately show ?thesis
    by (simp add: isMicMuted_def new_service_def)
qed

theorem mute_disables_audio_tracks_witness:
  "localStream (setMicMuted True (new_service\<lparr>localStream := Some mic_and_cam\<rparr>)) =
     Some [\<lparr>track_id = ''mic'', kind = Audio, enabled = False\<rparr>,
           \<lparr>track_id = ''cam'', kind = Video, enabled = True\<rparr>]
   \<and> \<not> isMicMuted (new_service\<lparr>localStream := Some mic_and_cam\<rparr>)
   \<and> isMicMuted (setMicMuted True (new_service\<lparr>localStream := Some mic_and_cam\<rparr>))"
  using mute_disables_audio_tracks [of "new_service\<lparr>localStream := Some mic_and_cam\<rparr>"]
  by (simp add: setMicMuted_def isMicMuted_def new_service_def mic_and_cam_def console_def
      emit_def)

subsection \<open>disconnect\<close>

text \<open>
  Claim C5. \<^verbatim>\<open>disconnect\<close> has no failing path, and a second call in a row leaves every
  field as the first call left it: peer connection, data channel, local stream, playback
  sink and session id null, the connected flag false, the accumulated text empty, as on
  a new service. The second call releases nothing; it only writes its two console lines
  and repeats the \<^verbatim>\<open>'disconnected'\<close> notification.
\<close>

theorem disconnect_idempotent:
  "svc_fields (disconnect (disconnect s)) = svc_fields (disconnect s)
   \<and> pc (disconnect s) = pc new_service
   \<and> dc (disconnect s) = dc new_service
   \<and> localStream (disconnect s) = localStream new_service
   \<and> remoteAudio (disconnect s) = remoteAudio new_service
   \<and> sessionId (disconnect s) = sessionId new_service
   \<and> connected (disconnect s) = connected new_service
   \<and> accumulatedBotText (disconnect s) = accumulatedBotText new_service
   \<and> pc (disconnect s) = None \<and> dc (disconnect s) = None
   \<and> localStream (disconnect s) = None \<and> remoteAudio (disconnect s) = None
   \<and> sessionId (disconnect s) = None \<and> \<not> connected (disconnect s)
   \<and> accumulatedBotText (disconnect s) = ''''
   \<and> since (disconnect s) (disconnect (disconnect s)) =
       Console Log ''[RTVI] Disconnecting...'' #
       (if onConnectionStateChange (callbacks s)
        then [Call (OnConnectionStateChange ''disconnected'')] else []) @
       [Console Log ''[RTVI] Disconnected'']"
proof -
  let ?d = "disconnect s"
  have again: "disconnect ?d =
      console Log ''[RTVI] Disconnected''
        (invoke onConnectionStateChange (OnConnectionStateChange ''disconnected'')
          (console Log ''[RTVI] Disconnecting...'' ?d))"
    by (rule service.equality)
      (simp_all add: disconnect_def [of ?d] disconnect_fields Let_def console_def invoke_def
        emit_def)
  have "svc_fields (disconnect ?d) = svc_fields ?d"
    by (simp add: again svc_fields_def console_def invoke_def emit_def)
  moreover have "since ?d (disconnect ?d) =
       Console Log ''[RTVI] Disconnecting...'' #
       (if onConnectionStateChange (callbacks s)
        then [Call (OnConnectionStateChange ''disconnected'')] else []) @
       [Console Log ''[RTVI] Disconnected'']"
    by (rule since_append)
      (simp add: again console_def invoke_def emit_def disconnect_fields)
  ultimately show ?thesis
    by (simp add: disconnect_fields new_service_def)
qed

subsection \<open>Transport signals and the connected flag\<close>

lemma ice_string_terminal:
  "(ice_string st = ''disconnected'' \<or> ice_string st = ''failed'' \<or> ice_string st = ''closed'')
     = ice_terminal st"
  by (cases st) (simp_all add: ice_terminal_def)

lemma pc_string_terminal:
  "(pc_string st = ''disconnected'' \<or> pc_string st = ''failed'' \<or> pc_string st = ''closed'')
     = pc_terminal st"
  by (cases st) (simp_all add: pc_terminal_def)

lemma pc_string_connected: "(pc_string st = ''connected'') = (st = PcConnected)"
  by (cases st) simp_all

lemma connected_ice_event:
  assumes "pc s = Some p" and "handlersSet p"
  shows "connected (fire P (EvIceConnectionStateChange st) s) = (connected s \<and> \<not> ice_terminal st)"
proof -
  let ?s = "set_pc (\<lambda>p. p\<lparr>iceConnectionState := st\<rparr>) s"
  have "ice_state_read ?s = ice_string st" and "pc ?s = Some (p\<lparr>iceConnectionState := st\<rparr>)"
    and "connected ?s = connected s"
    using assms by (simp_all add: ice_state_read_def set_pc_def)
  then show ?thesis
    using assms(2)
    by (simp add: pc_handler_def oniceconnectionstatechange_def Let_def console_def
        invoke_def emit_def ice_string_terminal)
qed

lemma connected_pc_event:
  assumes "pc s = Some p" and "handlersSet p"
  shows "connected (fire P (EvConnectionStateChange st) s) =
           (st = PcConnected \<or> connected s \<and> \<not> pc_terminal st)"
proof -
  let ?s = "set_pc (\<lambda>p. p\<lparr>connectionState := st\<rparr>) s"
  have "pc_state_read ?s = pc_string st" and "pc ?s = Some (p\<lparr>connectionState := st\<rparr>)"
    and "connected ?s = connected s"
    using assms by (simp_all add: pc_state_read_def set_pc_def)
  then show ?thesis
    using assms(2)
    by (auto simp: pc_handler_def onconnectionstatechange_def Let_def console_def
        emit_def pc_string_terminal pc_string_connected pc_terminal_def)
qed

lemma connect_ok_env:
  "connect ok_env demo_config all_callbacks new_service =
     (Inr (),
      \<lparr>pc = Some \<lparr>iceServers = [''stun:stun.l.google.com:19302''], iceConnectionState = IceNew,
                  connectionState = PcNew,
                  localDescription = Some (SessionDescription ''offer'' ''v=0''),
                  remoteDescription = Some (SessionDescription ''answer'' ''v=0''),
                  handlersSet = True\<rparr>,
       dc = None,
       localStream = Some [\<lparr>track_id = ''mic'', kind = Audio, enabled = True\<rparr>],
       remoteAudio = None, sessionId = Some ''s1'', svc_serverUrl = ''http://x'',
       callbacks = all_callbacks, connected = True, accumulatedBotText = '''',
       effects =
         [Console Log ''[RTVI] Creating session...'',
          Fetch ''POST'' ''http://x/start'',
          Console Log ''[RTVI] Session created:'',
          Console Log ''[RTVI] Requesting microphone access...'',
          GetUserMedia False,
          AddTrack ''mic'',
          Console Log ''[RTVI] Local audio track added'',
          Console Log ''[RTVI] Creating WebRTC offer...'',
          Fetch ''POST'' ''http://x/sessions/s1/api/offer'',
          Console Log ''[RTVI] Received answer, pc_id:'',
          Call (OnConnectionStateChange ''connected''),
          Console Log ''[RTVI] WebRTC connection established'']\<rparr>)"
  by (simp add: connect_def connect_try_def connect_media_def connect_offer_def ok_env_def
      demo_config_def new_service_def all_callbacks_def ok_def setupPeerConnectionHandlers_def
      console_def invoke_def emit_def emit_all_def Let_def)

lemmas connected_service_eq = connected_service_def [unfolded connect_ok_env snd_conv]

text \<open>
  Claim C6, as the code has it. When the ICE connection state or the overall connection
  state reports a terminal value (disconnected, failed, closed) on the service's peer
  connection, the connected flag is false after the event. The flag is not latched: the
  ICE handler never raises it and otherwise leaves it as it was, and the connection-state
  handler raises it whenever the state it reads is \<^verbatim>\<open>connected\<close>, whatever was reported
  before and with no new call of \<^verbatim>\<open>connect\<close>.
\<close>

theorem transport_signals_set_flag:
  assumes "pc s = Some p" and "handlersSet p"
  shows "(ice_terminal ist \<longrightarrow> \<not> connected (fire P (EvIceConnectionStateChange ist) s))
       \<and> (pc_terminal cst \<longrightarrow> \<not> connected (fire P (EvConnectionStateChange cst) s))
       \<and> connected (fire P (EvIceConnectionStateChange ist) s) =
           (connected s \<and> \<not> ice_terminal ist)
       \<and> connected (fire P (EvConnectionStateChange cst) s) =
           (cst = PcConnected \<or> connected s \<and> \<not> pc_terminal cst)
       \<and> connected (fire P (EvConnectionStateChange PcConnected) s)"
  using connected_ice_event [OF assms] connected_pc_event [OF assms]
  by (auto simp: pc_terminal_def)

theorem transport_signals_set_flag_witness:
  "connected connected_service
   \<and> \<not> connected (fire reject_all (EvIceConnectionStateChange IceFailed) connected_service)
   \<and> \<not> connected (fire reject_all (EvConnectionStateChange PcDisconnected) connected_service)
   \<and> connected (fire reject_all (EvConnectionStateChange PcConnected) connected_service)"
  using transport_signals_set_flag [where s = connected_service and ist = IceFailed
      and cst = PcDisconnected and P = reject_all]
  by (simp add: connected_service_eq ice_terminal_def pc_terminal_def)

text \<open>
  Against claim C6 as stated: after a successful \<^verbatim>\<open>connect\<close>, ICE and the connection
  report \<^verbatim>\<open>disconnected\<close> and the flag is false; ICE recovers, the connection reports
  \<^verbatim>\<open>connected\<close>, and the flag is true again, with no call of \<^verbatim>\<open>connect\<close> in between.
\<close>

theorem flag_not_latched_counterexample:
  "\<not> connected (run reject_all
        [Event (EvIceConnectionStateChange IceDisconnected),
         Event (EvConnectionStateChange PcDisconnected)] connected_service)
   \<and> connected (run reject_all
        [Event (EvIceConnectionStateChange IceDisconnected),
         Event (EvConnectionStateChange PcDisconnected),
         Event (EvIceConnectionStateChange IceConnected),
         Event (EvConnectionStateChange PcConnected)] connected_service)"
  by (simp add: connected_service_eq pc_handler_def set_pc_def ice_state_read_def
      pc_state_read_def oniceconnectionstatechange_def onconnectionstatechange_def
      console_def invoke_def emit_def all_callbacks_def Let_def)

text \<open>
  Against claim C1 as stated: \<^verbatim>\<open>connect\<close> on a new service, every step succeeding and no
  event of the browser delivered. The promise resolves, the flag is true and
  \<^verbatim>\<open>onConnectionStateChange('connected')\<close> has been invoked, while the peer connection
  still reads \<^verbatim>\<open>new\<close> for both of its states and no data channel has arrived.
\<close>

theorem connect_reports_early_counterexample:
  "fst (connect ok_env demo_config all_callbacks new_service) = Inr ()
   \<and> connected connected_service
   \<and> Call (OnConnectionStateChange ''connected'') \<in> set (effects connected_service)
   \<and> dc connected_service = None
   \<and> map_option connectionState (pc connected_service) = Some PcNew
   \<and> map_option iceConnectionState (pc connected_service) = Some IceNew"
  by (simp add: connected_service_eq connect_ok_env)

subsection \<open>How the operations extend the log\<close>

lemma extends_iff: "extends s s' = (\<exists>es. effects s' = effects s @ es)"
  unfolding extends_def
  by (metis append_eq_conv_conj append_take_drop_id)

lemma extends_since: "extends s s' \<Longrightarrow> effects s' = effects s @ since s s'"
  unfolding extends_def since_def
  by (metis append_take_drop_id)

lemma calls_since:
  assumes "extends s s'" and "calls (effects s') = calls (effects s) @ cs"
  shows "calls (since s s') = cs"
  using assms(2) by (simp add: extends_since [OF assms(1)] calls_append)

lemma sends_since:
  assumes "extends s s'" and "sends (effects s') = sends (effects s) @ ms"
  shows "sends (since s s') = ms"
  using assms(2) by (simp add: extends_since [OF assms(1)] sends_append)

lemma extends_refl [simp]: "extends s s"
  by (simp add: extends_def)

lemma extends_trans: "extends s s1 \<Longrightarrow> extends s1 s2 \<Longrightarrow> extends s s2"
  by (auto simp: extends_iff)

lemma extends_emit [simp]:
  "extends s s' \<Longrightarrow> extends s (emit e s')"
  "extends s s' \<Longrightarrow> extends s (emit_all es s')"
  "extends s s' \<Longrightarrow> extends s (console lvl msg s')"
  "extends s s' \<Longrightarrow> extends s (invoke f ev s')"
  by (auto simp: extends_iff emit_def emit_all_def console_def invoke_def)

lemma extends_update [simp]:
  "extends s (s'\<lparr>pc := a\<rparr>) = extends s s'"
  "extends s (s'\<lparr>dc := b\<rparr>) = extends s s'"
  "extends s (s'\<lparr>localStream := c\<rparr>) = extends s s'"
  "extends s (s'\<lparr>remoteAudio := d\<rparr>) = extends s s'"
  "extends s (s'\<lparr>sessionId := e\<rparr>) = extends s s'"
  "extends s (s'\<lparr>svc_serverUrl := f\<rparr>) = extends s s'"
  "extends s (s'\<lparr>callbacks := g\<rparr>) = extends s s'"
  "extends s (s'\<lparr>connected := h\<rparr>) = extends s s'"
  "extends s (s'\<lparr>accumulatedBotText := i\<rparr>) = extends s s'"
  "extends (s\<lparr>svc_serverUrl := f\<rparr>) s' = extends s s'"
  "extends (s\<lparr>callbacks := g\<rparr>) s' = extends s s'"
  "extends (s\<lparr>accumulatedBotText := i\<rparr>) s' = extends s s'"
  by (simp_all add: extends_def)

lemma sends_emit [simp]:
  "sends (effects (emit e s)) = sends (effects s) @ sends [e]"
  "sends (effects (emit_all es s)) = sends (effects s) @ sends es"
  "sends (effects (console lvl msg s)) = sends (effects s)"
  "sends (effects (invoke f ev s)) = sends (effects s)"
  by (simp_all add: emit_def emit_all_def console_def invoke_def sends_append)

lemma calls_emit [simp]:
  "calls (effects (emit e s)) = calls (effects s) @ calls [e]"
  "calls (effects (emit_all es s)) = calls (effects s) @ calls es"
  "calls (effects (console lvl msg s)) = calls (effects s)"
  "calls (effects (invoke f ev s)) = calls (effects s) @ (if f (callbacks s) then [ev] else [])"
  by (simp_all add: emit_def emit_all_def console_def invoke_def calls_append)

lemma frame_emit [simp]:
  "callbacks (emit e s) = callbacks s" "callbacks (emit_all es s) = callbacks s"
  "callbacks (console lvl msg s) = callbacks s" "callbacks (invoke f ev s) = callbacks s"
  "connected (emit e s) = connected s" "connected (emit_all es s) = connected s"
  "connected (console lvl msg s) = connected s" "connected (invoke f ev s) = connected s"
  "pc (emit e s) = pc s" "pc (emit_all es s) = pc s"
  "pc (console lvl msg s) = pc s" "pc (invoke f ev s) = pc s"
  "dc (emit e s) = dc s" "dc (emit_all es s) = dc s"
  "dc (console lvl msg s) = dc s" "dc (invoke f ev s) = dc s"
  "localStream (emit e s) = localStream s" "localStream (emit_all es s) = localStream s"
  "localStream (console lvl msg s) = localStream s" "localStream (invoke f ev s) = localStream s"
  "svc_serverUrl (emit e s) = svc_serverUrl s" "svc_serverUrl (emit_all es s) = svc_serverUrl s"
  "svc_serverUrl (console lvl msg s) = svc_serverUrl s"
  "svc_serverUrl (invoke f ev s) = svc_serverUrl s"
  by (simp_all add: emit_def emit_all_def console_def invoke_def)

lemma no_calls_no_sends_tracks:
  "calls (map (\<lambda>t. AddTrack (track_id t)) ts) = []"
  "sends (map (\<lambda>t. AddTrack (track_id t)) ts) = []"
  "calls (map (\<lambda>t. TrackStop (track_id t)) ts) = []"
  "sends (map (\<lambda>t. TrackStop (track_id t)) ts) = []"
  by (induction ts) simp_all

text \<open>Sequencing inside the try block: a throw skips the rest.\<close>

lemma try_seq:
  "(case p of (Some e, s) \<Rightarrow> (Some e, s) | (None, s) \<Rightarrow> f s) =
     (if fst p = None then f (snd p) else p)"
  by (cases p; cases "fst p") auto

lemma connect_media_result:
  "(fst (connect_media env config s) = None) = media_succeeds env config"
  by (simp add: connect_media_def media_succeeds_def Let_def split: sum.splits)

lemma connect_media_frame [simp]:
  "callbacks (snd (connect_media env config s)) = callbacks s"
  "connected (snd (connect_media env config s)) = connected s"
  "pc (snd (connect_media env config s)) = pc s"
  "dc (snd (connect_media env config s)) = dc s"
  "svc_serverUrl (snd (connect_media env config s)) = svc_serverUrl s"
  "calls (effects (snd (connect_media env config s))) = calls (effects s)"
  "sends (effects (snd (connect_media env config s))) = sends (effects s)"
  "extends s0 s \<Longrightarrow> extends s0 (snd (connect_media env config s))"
  by (simp_all add: connect_media_def Let_def no_calls_no_sends_tracks split: sum.splits)

lemma connect_offer_result:
  "(fst (connect_offer env sid s) = None) = offer_succeeds env"
  by (auto simp: connect_offer_def offer_succeeds_def passes_def Let_def
      split: sum.splits option.splits)

lemma connect_offer_frame [simp]:
  "callbacks (snd (connect_offer env sid s)) = callbacks s"
  "dc (snd (connect_offer env sid s)) = dc s"
  "svc_serverUrl (snd (connect_offer env sid s)) = svc_serverUrl s"
  "map_option connectionState (pc (snd (connect_offer env sid s))) =
     map_option connectionState (pc s)"
  "map_option iceConnectionState (pc (snd (connect_offer env sid s))) =
     map_option iceConnectionState (pc s)"
  "connected (snd (connect_offer env sid s)) = (offer_succeeds env \<or> connected s)"
  "calls (effects (snd (connect_offer env sid s))) =
     calls (effects s) @ (if offer_succeeds env then connected_calls (callbacks s) else [])"
  "sends (effects (snd (connect_offer env sid s))) = sends (effects s)"
  by (auto simp: connect_offer_def offer_succeeds_def passes_def connected_calls_def Let_def
      option.map_comp comp_def split: sum.splits option.splits)

lemma connect_offer_extends [simp]:
  "extends s0 s \<Longrightarrow> extends s0 (snd (connect_offer env sid s))"
  by (simp add: connect_offer_def Let_def split: sum.splits option.splits)

lemma connect_try_result:
  "(fst (connect_try env config s) = None) = all_steps_succeed env config"
  by (auto simp: connect_try_def all_steps_succeed_def passes_def Let_def try_seq
      connect_media_result connect_offer_result split: sum.splits option.splits)

lemma connect_try_frame [simp]:
  "callbacks (snd (connect_try env config s)) = callbacks s"
  "dc (snd (connect_try env config s)) = dc s"
  "svc_serverUrl (snd (connect_try env config s)) = svc_serverUrl s"
  "sends (effects (snd (connect_try env config s))) = sends (effects s)"
  by (simp_all add: connect_try_def Let_def try_seq setupPeerConnectionHandlers_def
      split: sum.splits option.splits)

lemma connect_try_extends [simp]:
  "extends s0 s \<Longrightarrow> extends s0 (snd (connect_try env config s))"
  by (simp add: connect_try_def Let_def try_seq setupPeerConnectionHandlers_def
      split: sum.splits option.splits)

lemma connect_try_connected:
  "connected (snd (connect_try env config s)) = (all_steps_succeed env config \<or> connected s)"
  by (auto simp: connect_try_def all_steps_succeed_def passes_def Let_def try_seq
      connect_media_result setupPeerConnectionHandlers_def split: sum.splits option.splits)

lemma connect_try_calls:
  "calls (effects (snd (connect_try env config s))) =
     calls (effects s) @ (if all_steps_succeed env config then connected_calls (callbacks s) else [])"
  by (auto simp: connect_try_def all_steps_succeed_def passes_def Let_def try_seq
      connect_media_result setupPeerConnectionHandlers_def split: sum.splits option.splits)

lemma connect_try_pc:
  assumes "all_steps_succeed env config"
  shows "map_option connectionState (pc (snd (connect_try env config s))) = Some PcNew"
    and "map_option iceConnectionState (pc (snd (connect_try env config s))) = Some IceNew"
  using assms
  by (auto simp: connect_try_def all_steps_succeed_def passes_def Let_def try_seq
      connect_media_result setupPeerConnectionHandlers_def simp del: map_option_eq_Some
      split: sum.splits option.splits)

lemma connect_try_start_status:
  assumes "fetch_start env = Inr r" and "\<not> ok r"
  shows "fst (connect_try env config s) =
           Some (new_Error (''Failed to create session: '' @ string_of_nat (status r)))"
  using assms by (simp add: connect_try_def Let_def)

lemma disconnect_log [simp]:
  "calls (effects (disconnect s)) =
     calls (effects s) @
     (if onConnectionStateChange (callbacks s) then [OnConnectionStateChange ''disconnected''] else [])"
  "sends (effects (disconnect s)) = sends (effects s)"
  by (simp_all add: disconnect_def Let_def no_calls_no_sends_tracks split: option.splits)

lemma disconnect_extends [simp]: "extends s0 s \<Longrightarrow> extends s0 (disconnect s)"
  by (simp add: disconnect_def Let_def split: option.splits)

lemma disconnect_stops_tracks:
  assumes "localStream s = Some tracks" and "t \<in> set tracks"
  shows "TrackStop (track_id t) \<in> set (since s (disconnect s))"
proof -
  have "\<exists>es. since s (disconnect s) =
          Console Log ''[RTVI] Disconnecting...'' # map (\<lambda>t. TrackStop (track_id t)) tracks @ es"
    using assms(1)
    by (simp add: disconnect_def since_def Let_def console_def emit_def emit_all_def invoke_def
        split: option.splits)
  then show ?thesis
    using assms(2) by auto
qed

text \<open>\<^verbatim>\<open>connect\<close>, read through the outcome of its try block.\<close>

lemma connect_unfold:
  "connect env config cbs s =
     (case fst (connect_try env config (connect_init config cbs s)) of
        None \<Rightarrow> (Inr (), snd (connect_try env config (connect_init config cbs s)))
      | Some err \<Rightarrow>
          (Inl err,
           disconnect (invoke onError (OnError err)
             (console Err ''[RTVI] Connection error:''
               (snd (connect_try env config (connect_init config cbs s)))))))"
  by (simp add: connect_def connect_init_def Let_def split: prod.splits option.splits)

lemma connect_init_frame [simp]:
  "callbacks (connect_init config cbs s) = cbs"
  "effects (connect_init config cbs s) = effects s"
  "dc (connect_init config cbs s) = dc s"
  "extends s0 (connect_init config cbs s) = extends s0 s"
  by (simp_all add: connect_init_def extends_def)

lemma connect_result:
  "(fst (connect env config cbs s) = Inr ()) = all_steps_succeed env config"
  using connect_try_result [of env config "connect_init config cbs s"]
  by (auto simp: connect_unfold split: option.splits)

lemma connect_extends [simp]: "extends s0 s \<Longrightarrow> extends s0 (snd (connect env config cbs s))"
  by (simp add: connect_unfold split: option.splits)

lemma connect_sends [simp]:
  "sends (effects (snd (connect env config cbs s))) = sends (effects s)"
  by (simp add: connect_unfold split: option.splits)

lemma connect_connected:
  "connected (snd (connect env config cbs s)) = all_steps_succeed env config"
  using connect_try_result [of env config "connect_init config cbs s"]
  by (auto simp: connect_unfold connect_try_connected disconnect_fields split: option.splits)

lemma connect_calls:
  "calls (effects (snd (connect env config cbs s))) =
     calls (effects s) @
     (case fst (connect env config cbs s) of
        Inr u \<Rightarrow> connected_calls cbs
      | Inl e \<Rightarrow> (if onError cbs then [OnError e] else []) @
                 (if onConnectionStateChange cbs then [OnConnectionStateChange ''disconnected'']
                  else []))"
  using connect_try_result [of env config "connect_init config cbs s"]
  by (auto simp: connect_unfold connect_try_calls split: option.splits)

lemma since_trans:
  assumes "extends s s1" and "extends s1 s2"
  shows "since s s2 = since s s1 @ since s1 s2"
proof -
  have "effects s2 = effects s @ since s s1 @ since s1 s2"
    using extends_since [OF assms(1)] extends_since [OF assms(2)] by simp
  then show ?thesis
    by (rule since_append)
qed

lemma string_of_nat_503: "string_of_nat 503 = ''503''"
  by code_simp

lemma string_of_nat_500: "string_of_nat 500 = ''500''"
  by code_simp

lemma connect_try_offer_500:
  "fst (connect_try offer_500_env demo_config (connect_init demo_config all_callbacks new_service))
     = Some (new_Error ''Failed to send offer: 500'')"
  "localStream (snd (connect_try offer_500_env demo_config
       (connect_init demo_config all_callbacks new_service)))
     = Some [\<lparr>track_id = ''mic'', kind = Audio, enabled = True\<rparr>]"
  by (simp_all add: connect_try_def connect_media_def connect_offer_def connect_init_def
      offer_500_env_def ok_env_def demo_config_def new_service_def ok_def string_of_nat_500
      setupPeerConnectionHandlers_def console_def emit_def emit_all_def Let_def)

subsection \<open>When connect reports the connection\<close>

text \<open>
  Claim C1, as the code has it. \<^verbatim>\<open>connect\<close> reports \<^verbatim>\<open>connected\<close>, by the flag and by
  \<^verbatim>\<open>onConnectionStateChange('connected')\<close> when that callback is supplied, exactly when
  every step of its handshake up to setting the remote description has succeeded, and
  then at once: it waits neither for the transport to report \<^verbatim>\<open>connected\<close> nor for the
  control channel to open. On success the peer connection it has just built still reads
  \<^verbatim>\<open>new\<close> for both states and the data-channel field is as it was before the call. When
  a step fails the flag is false after \<^verbatim>\<open>connect\<close> and \<^verbatim>\<open>connected\<close> is not notified.
\<close>

theorem connect_reports_after_handshake:
  "connected (snd (connect env config cbs s)) = all_steps_succeed env config
   \<and> (fst (connect env config cbs s) = Inr ()) = all_steps_succeed env config
   \<and> (OnConnectionStateChange ''connected'' \<in> set (calls (since s (snd (connect env config cbs s)))))
       = (all_steps_succeed env config \<and> onConnectionStateChange cbs)
   \<and> (all_steps_succeed env config \<longrightarrow>
        dc (snd (connect env config cbs s)) = dc s
        \<and> map_option connectionState (pc (snd (connect env config cbs s))) = Some PcNew
        \<and> map_option iceConnectionState (pc (snd (connect env config cbs s))) = Some IceNew)"
proof -
  let ?r = "connect env config cbs s"
  let ?t = "connect_try env config (connect_init config cbs s)"
  have ext: "extends s (snd ?r)"
    by simp
  have cs: "calls (since s (snd ?r)) =
      (case fst ?r of
         Inr u \<Rightarrow> connected_calls cbs
       | Inl e \<Rightarrow> (if onError cbs then [OnError e] else []) @
                  (if onConnectionStateChange cbs then [OnConnectionStateChange ''disconnected'']
                   else []))"
    using ext by (rule calls_since) (rule connect_calls)
  have notified: "(OnConnectionStateChange ''connected'' \<in> set (calls (since s (snd ?r))))
       = (all_steps_succeed env config \<and> onConnectionStateChange cbs)"
  proof (cases "fst ?r")
    case (Inl e)
    with connect_result [of env config cbs s] have "\<not> all_steps_succeed env config"
      by simp
    with Inl show ?thesis
      by (simp add: cs)
  next
    case (Inr u)
    with connect_result [of env config cbs s] have "all_steps_succeed env config"
      by simp
    with Inr show ?thesis
      by (simp add: cs connected_calls_def)
  qed
  have fresh: "dc (snd ?r) = dc s
        \<and> map_option connectionState (pc (snd ?r)) = Some PcNew
        \<and> map_option iceConnectionState (pc (snd ?r)) = Some IceNew"
    if ok: "all_steps_succeed env config"
  proof -
    from ok have "fst ?t = None"
      by (simp add: connect_try_result)
    then have "snd ?r = snd ?t"
      by (simp add: connect_unfold)
    then show ?thesis
      using connect_try_pc [OF ok, of "connect_init config cbs s"] by simp
  qed
  show ?thesis
    using notified fresh by (simp add: connect_connected connect_result)
qed

theorem connect_reports_after_handshake_witness:
  "all_steps_succeed ok_env demo_config
   \<and> connected (snd (connect ok_env demo_config all_callbacks new_service))
   \<and> OnConnectionStateChange ''connected''
       \<in> set (calls (since new_service (snd (connect ok_env demo_config all_callbacks new_service))))
   \<and> dc (snd (connect ok_env demo_config all_callbacks new_service)) = None
   \<and> map_option connectionState (pc (snd (connect ok_env demo_config all_callbacks new_service)))
       = Some PcNew
   \<and> \<not> all_steps_succeed start_503_env demo_config
   \<and> \<not> connected (snd (connect start_503_env demo_config all_callbacks new_service))"
proof -
  have yes: "all_steps_succeed ok_env demo_config"
    by (simp add: all_steps_succeed_def passes_def media_succeeds_def offer_succeeds_def
        ok_env_def ok_def demo_config_def)
  have no: "\<not> all_steps_succeed start_503_env demo_config"
    by (simp add: all_steps_succeed_def passes_def start_503_env_def ok_env_def ok_def)
  show ?thesis
    using yes no
      connect_reports_after_handshake [of ok_env demo_config all_callbacks new_service]
      connect_reports_after_handshake [of start_503_env demo_config all_callbacks new_service]
    by (simp add: all_callbacks_def new_service_def)
qed

subsection \<open>Failure of connect\<close>

lemma disconnect_since:
  "since s (disconnect s) =
     Console Log ''[RTVI] Disconnecting...'' # releases s @
     (if onConnectionStateChange (callbacks s)
      then [Call (OnConnectionStateChange ''disconnected'')] else []) @
     [Console Log ''[RTVI] Disconnected'']"
  by (rule since_append)
    (simp add: disconnect_def releases_def Let_def console_def emit_def emit_all_def invoke_def
      split: option.splits)

lemma releases_frame [simp]:
  "releases (console lvl msg s) = releases s"
  "releases (invoke f ev s) = releases s"
  by (simp_all add: releases_def console_def invoke_def emit_def)

lemma catch_since:
  "since s1 (disconnect (invoke onError (OnError e) (console Err ''[RTVI] Connection error:'' s1))) =
     Console Err ''[RTVI] Connection error:'' #
     (if onError (callbacks s1) then [Call (OnError e)] else []) @
     Console Log ''[RTVI] Disconnecting...'' # releases s1 @
     (if onConnectionStateChange (callbacks s1)
      then [Call (OnConnectionStateChange ''disconnected'')] else []) @
     [Console Log ''[RTVI] Disconnected'']"
proof -
  let ?s2 = "invoke onError (OnError e) (console Err ''[RTVI] Connection error:'' s1)"
  have "since s1 ?s2 =
      Console Err ''[RTVI] Connection error:'' #
      (if onError (callbacks s1) then [Call (OnError e)] else [])"
    by (rule since_append) (simp add: invoke_def console_def emit_def)
  moreover have "since s1 (disconnect ?s2) = since s1 ?s2 @ since ?s2 (disconnect ?s2)"
    by (rule since_trans) simp_all
  ultimately show ?thesis
    by (simp add: disconnect_since)
qed

lemma connect_stage_held [simp]:
  "localStream (snd (connect_media env config s)) =
     (if enableMic config \<noteq> Some False
      then (case getUserMedia env of Inr tracks \<Rightarrow> Some tracks | Inl e \<Rightarrow> localStream s)
      else localStream s)"
  "remoteAudio (snd (connect_media env config s)) = remoteAudio s"
  "localStream (snd (connect_offer env sid s)) = localStream s"
  "remoteAudio (snd (connect_offer env sid s)) = remoteAudio s"
  "(pc (snd (connect_offer env sid s)) = None) = (pc s = None)"
  by (auto simp: connect_media_def connect_offer_def Let_def console_def emit_def emit_all_def
      invoke_def split: sum.splits option.splits)

lemma connect_try_held:
  "localStream (snd (connect_try env config s)) =
     (case acquired env config of Some tracks \<Rightarrow> Some tracks | None \<Rightarrow> localStream s)"
  "remoteAudio (snd (connect_try env config s)) = remoteAudio s"
  "(pc (snd (connect_try env config s)) = None) = (pc s = None \<and> \<not> pc_built env)"
  by (auto simp: connect_try_def acquired_def pc_built_def passes_def Let_def try_seq
      setupPeerConnectionHandlers_def console_def emit_def simp del: not_None_eq
      split: sum.splits option.splits)

lemma at_throw_releases:
  assumes "holds_nothing s"
  shows "releases (at_throw env config cbs s) =
           (case acquired env config of
              Some tracks \<Rightarrow> map (\<lambda>t. TrackStop (track_id t)) tracks
            | None \<Rightarrow> [])
           @ (if pc_built env then [PcClose] else [])"
proof -
  let ?s0 = "connect_init config cbs s"
  let ?s1 = "snd (connect_try env config ?s0)"
  from assms have clean: "pc ?s0 = None" "dc ?s0 = None" "localStream ?s0 = None"
      "remoteAudio ?s0 = None"
    by (simp_all add: holds_nothing_def connect_init_def)
  have l: "localStream ?s1 = acquired env config"
    by (simp add: connect_try_held clean split: option.splits)
  have r: "remoteAudio ?s1 = None" and d: "dc ?s1 = None"
    using assms by (simp_all add: connect_try_held clean holds_nothing_def)
  from assms have ds: "dc s = None"
    by (simp add: holds_nothing_def)
  have p: "(pc ?s1 = None) = (\<not> pc_built env)"
    by (simp add: connect_try_held clean)
  show ?thesis
  proof (cases "pc_built env")
    case True
    with p obtain x where "pc ?s1 = Some x"
      by (cases "pc ?s1") simp_all
    with True show ?thesis
      by (simp add: at_throw_def releases_def l r ds)
  next
    case False
    with p have "pc ?s1 = None"
      by simp
    with False show ?thesis
      by (simp add: at_throw_def releases_def l r ds)
  qed
qed

lemma connect_try_offer_status:
  assumes "pc_built env" and "media_succeeds env config" and "\<not> isl (createOffer env)"
    and "setLocalDescription env = None" and "fetch_offer env = Inr r" and "\<not> ok r"
  shows "fst (connect_try env config s) =
           Some (new_Error (''Failed to send offer: '' @ string_of_nat (status r)))"
  using assms
  by (auto simp: connect_try_def connect_offer_def pc_built_def passes_def Let_def try_seq
      connect_media_result split: sum.splits option.splits)

lemma at_throw_frame [simp]:
  "callbacks (at_throw env config cbs s) = cbs"
  "extends s (at_throw env config cbs s)"
  by (simp_all add: at_throw_def)

lemma releases_member:
  "localStream s = Some tracks \<Longrightarrow> t \<in> set tracks \<Longrightarrow> TrackStop (track_id t) \<in> set (releases s)"
  "remoteAudio s \<noteq> None \<Longrightarrow> AudioDetach \<in> set (releases s)"
  "dc s \<noteq> None \<Longrightarrow> DcClose \<in> set (releases s)"
  "pc s \<noteq> None \<Longrightarrow> PcClose \<in> set (releases s)"
  by (auto simp: releases_def)

lemma release_append: "release_effects (xs @ ys) = release_effects xs @ release_effects ys"
  by (induction xs rule: release_effects.induct) simp_all

lemma release_emit [simp]:
  "release_effects (effects (emit e s)) = release_effects (effects s) @ release_effects [e]"
  "release_effects (effects (emit_all es s)) = release_effects (effects s) @ release_effects es"
  "release_effects (effects (console lvl msg s)) = release_effects (effects s)"
  "release_effects (effects (invoke f ev s)) = release_effects (effects s)"
  by (simp_all add: emit_def emit_all_def console_def invoke_def release_append)

lemma release_tracks [simp]:
  "release_effects (map (\<lambda>t. AddTrack (track_id t)) ts) = []"
  "release_effects (map (\<lambda>t. TrackStop (track_id t)) ts) = map (\<lambda>t. TrackStop (track_id t)) ts"
  by (induction ts) simp_all

lemma release_releases [simp]: "release_effects (releases s) = releases s"
  by (simp add: releases_def release_append split: option.splits)

lemma release_member:
  "(TrackStop i \<in> set (release_effects es)) = (TrackStop i \<in> set es)"
  "closes (release_effects es) = closes es"
  by (induction es rule: release_effects.induct) simp_all

lemma release_since:
  assumes "extends s s'" and "release_effects (effects s') = release_effects (effects s) @ rs"
  shows "release_effects (since s s') = rs"
  using assms(2) by (simp add: extends_since [OF assms(1)] release_append)

lemma connect_stage_release [simp]:
  "release_effects (effects (snd (connect_media env config s))) = release_effects (effects s)"
  "release_effects (effects (snd (connect_offer env sid s))) = release_effects (effects s)"
  by (simp_all add: connect_media_def connect_offer_def Let_def
      split: sum.splits option.splits)

lemma connect_try_release [simp]:
  "release_effects (effects (snd (connect_try env config s))) = release_effects (effects s)"
  by (simp add: connect_try_def Let_def try_seq setupPeerConnectionHandlers_def
      split: sum.splits option.splits)

lemma at_throw_release: "release_effects (since s (at_throw env config cbs s)) = []"
  by (rule release_since) (simp_all add: at_throw_def)

lemma connect_fail_eq:
  assumes "fst (connect_try env config (connect_init config cbs s)) = Some e"
  shows "connect env config cbs s =
           (Inl e, disconnect (invoke onError (OnError e)
              (console Err ''[RTVI] Connection error:'' (at_throw env config cbs s))))"
  using assms by (simp add: connect_unfold at_throw_def)

lemma connect_fail_release:
  assumes "fst (connect_try env config (connect_init config cbs s)) = Some e"
  shows "release_effects (since s (snd (connect env config cbs s))) =
           releases (at_throw env config cbs s)"
proof -
  let ?s1 = "at_throw env config cbs s"
  let ?s2 = "invoke onError (OnError e) (console Err ''[RTVI] Connection error:'' ?s1)"
  have eq: "snd (connect env config cbs s) = disconnect ?s2"
    by (simp add: connect_fail_eq [OF assms])
  have "since s (disconnect ?s2) = since s ?s1 @ since ?s1 (disconnect ?s2)"
    by (rule since_trans) simp_all
  then show ?thesis
    by (simp add: eq release_append at_throw_release catch_since)
qed

lemma connect_init_held [simp]:
  "pc (connect_init config cbs s) = pc s"
  "localStream (connect_init config cbs s) = localStream s"
  "remoteAudio (connect_init config cbs s) = remoteAudio s"
  by (simp_all add: connect_init_def)

lemma offer_500_env_facts:
  "pc_built offer_500_env" "media_succeeds offer_500_env demo_config"
  "\<not> isl (createOffer offer_500_env)" "setLocalDescription offer_500_env = None"
  "fetch_offer offer_500_env = Inr \<lparr>status = 500, json = Inl (JsError ''SyntaxError'' [])\<rparr>"
  "\<not> ok \<lparr>status = 500, json = Inl (JsError ''SyntaxError'' []) :: js_error + Answer\<rparr>"
  "acquired offer_500_env demo_config = Some [\<lparr>track_id = ''mic'', kind = Audio, enabled = True\<rparr>]"
  by (simp_all add: offer_500_env_def ok_env_def demo_config_def pc_built_def passes_def
      media_succeeds_def acquired_def ok_def)

lemma reconnect_500_env_facts:
  "pc_built reconnect_500_env" "media_succeeds reconnect_500_env demo_config"
  "\<not> isl (createOffer reconnect_500_env)" "setLocalDescription reconnect_500_env = None"
  "fetch_offer reconnect_500_env = Inr \<lparr>status = 500, json = Inl (JsError ''SyntaxError'' [])\<rparr>"
  "acquired reconnect_500_env demo_config =
     Some [\<lparr>track_id = ''mic2'', kind = Audio, enabled = True\<rparr>]"
  by (simp_all add: reconnect_500_env_def offer_500_env_def ok_env_def demo_config_def
      pc_built_def passes_def media_succeeds_def acquired_def ok_def)

lemma reconnect_500_try:
  "fst (connect_try reconnect_500_env demo_config
         (connect_init demo_config all_callbacks connected_service)) =
     Some (new_Error ''Failed to send offer: 500'')"
  using connect_try_offer_status [OF reconnect_500_env_facts(1-5) offer_500_env_facts(6),
      of "connect_init demo_config all_callbacks connected_service"]
  by (simp add: string_of_nat_500)

lemma reconnect_500_releases:
  "releases (at_throw reconnect_500_env demo_config all_callbacks connected_service) =
     [TrackStop ''mic2'', PcClose]"
proof -
  let ?s1 = "at_throw reconnect_500_env demo_config all_callbacks connected_service"
  have "localStream ?s1 = Some [\<lparr>track_id = ''mic2'', kind = Audio, enabled = True\<rparr>]"
    by (simp add: at_throw_def connect_try_held reconnect_500_env_facts)
  moreover have "remoteAudio ?s1 = None" and "dc ?s1 = None"
    by (simp_all add: at_throw_def connect_try_held connected_service_eq)
  moreover have "pc ?s1 \<noteq> None"
    using connect_try_held(3) [of reconnect_500_env demo_config
        "connect_init demo_config all_callbacks connected_service"]
    by (simp add: at_throw_def reconnect_500_env_facts)
  then obtain x where "pc ?s1 = Some x"
    by (cases "pc ?s1") simp_all
  ultimately show ?thesis
    by (simp add: releases_def)
qed

text \<open>
  Against claim C4 as stated: \<^verbatim>\<open>connect\<close> is called again on a service that is still
  connected, holding a peer connection and the live microphone track \<^verbatim>\<open>mic\<close>; the media
  request delivers the track \<^verbatim>\<open>mic2\<close> and the offer endpoint answers with status 500.
  The promise rejects with a plain \<^verbatim>\<open>Error\<close>. The cleanup stops \<^verbatim>\<open>mic2\<close> and closes one
  peer connection, the one this call built; the earlier track \<^verbatim>\<open>mic\<close> is never stopped
  and the earlier peer connection never closed, both having been overwritten in steps 2
  and 3, while \<^verbatim>\<open>isMicMuted\<close> reads true.
\<close>

theorem connect_failure_leaves_earlier_objects_counterexample:
  "localStream connected_service = Some [\<lparr>track_id = ''mic'', kind = Audio, enabled = True\<rparr>]
   \<and> pc connected_service \<noteq> None
   \<and> fst (connect reconnect_500_env demo_config all_callbacks connected_service) =
       Inl (JsError ''Error'' ''Failed to send offer: 500'')
   \<and> release_effects (since connected_service
         (snd (connect reconnect_500_env demo_config all_callbacks connected_service))) =
       [TrackStop ''mic2'', PcClose]
   \<and> TrackStop ''mic'' \<notin> set (since connected_service
         (snd (connect reconnect_500_env demo_config all_callbacks connected_service)))
   \<and> closes (since connected_service
         (snd (connect reconnect_500_env demo_config all_callbacks connected_service))) = 1
   \<and> isMicMuted (snd (connect reconnect_500_env demo_config all_callbacks connected_service))"
proof -
  let ?r = "connect reconnect_500_env demo_config all_callbacks connected_service"
  have before: "localStream connected_service =
      Some [\<lparr>track_id = ''mic'', kind = Audio, enabled = True\<rparr>]" "pc connected_service \<noteq> None"
    by (simp_all add: connected_service_eq)
  have rejected: "fst ?r = Inl (JsError ''Error'' ''Failed to send offer: 500'')"
    by (simp add: connect_fail_eq [OF reconnect_500_try] new_Error_def)
  have rel: "release_effects (since connected_service (snd ?r)) = [TrackStop ''mic2'', PcClose]"
    by (simp only: connect_fail_release [OF reconnect_500_try] reconnect_500_releases)
  have "(TrackStop ''mic'' \<in> set (since connected_service (snd ?r))) =
      (TrackStop ''mic'' \<in> set (release_effects (since connected_service (snd ?r))))"
    by (simp only: release_member)
  then have unstopped: "TrackStop ''mic'' \<notin> set (since connected_service (snd ?r))"
    by (simp add: rel)
  have "closes (since connected_service (snd ?r)) =
      closes (release_effects (since connected_service (snd ?r)))"
    by (simp only: release_member)
  then have one: "closes (since connected_service (snd ?r)) = 1"
    by (simp add: rel)
  have muted: "isMicMuted (snd ?r)"
    by (simp add: connect_fail_eq [OF reconnect_500_try] isMicMuted_def disconnect_fields)
  from before rejected rel unstopped one muted show ?thesis
    by (intro conjI)
qed

text \<open>
  Claim C4, as the code has it. When any step of \<^verbatim>\<open>connect\<close> fails the promise rejects,
  with the very error the try block threw. For a non-success status from the
  session-creation endpoint or from the offer endpoint that error is the plain
  \<^verbatim>\<open>Error('Failed to create session: <status>')\<close> or \<^verbatim>\<open>Error('Failed to send offer: <status>')\<close>;
  the source has no error class of its own. Before rejecting, the service writes the
  error to the console, invokes the error callback (when supplied) with that error, and
  runs \<^verbatim>\<open>disconnect\<close> on the state at the throw. This releases every object the service
  references at that moment and nothing else: each track of the referenced local stream
  is stopped, the referenced playback sink detached, the referenced data channel and peer
  connection closed; then every such field is null, the flag is false and \<^verbatim>\<open>isMicMuted\<close>
  reads true. When \<^verbatim>\<open>connect\<close> was called on a service referencing no such object (new, or
  after \<^verbatim>\<open>disconnect\<close>), what is released is exactly what this call acquired: the
  tracks the media request delivered and the peer connection, when it was built.
\<close>

theorem connect_failure_cleans_up:
  "(\<not> all_steps_succeed env config \<longrightarrow> (\<exists>e. fst (connect env config cbs s) = Inl e))
   \<and> (fst (connect env config cbs s) = Inl e)
       = (fst (connect_try env config (connect_init config cbs s)) = Some e)
   \<and> (\<forall>r. fetch_start env = Inr r \<and> \<not> ok r \<longrightarrow>
          fst (connect env config cbs s) =
            Inl (JsError ''Error'' (''Failed to create session: '' @ string_of_nat (status r))))
   \<and> (\<forall>r. pc_built env \<and> media_succeeds env config \<and> \<not> isl (createOffer env)
            \<and> setLocalDescription env = None \<and> fetch_offer env = Inr r \<and> \<not> ok r \<longrightarrow>
          fst (connect env config cbs s) =
            Inl (JsError ''Error'' (''Failed to send offer: '' @ string_of_nat (status r))))
   \<and> (fst (connect env config cbs s) = Inl e \<longrightarrow>
          snd (connect env config cbs s) =
            disconnect (invoke onError (OnError e)
              (console Err ''[RTVI] Connection error:'' (at_throw env config cbs s)))
          \<and> since (at_throw env config cbs s) (snd (connect env config cbs s)) =
              Console Err ''[RTVI] Connection error:'' #
              (if onError cbs then [Call (OnError e)] else []) @
              Console Log ''[RTVI] Disconnecting...'' # releases (at_throw env config cbs s) @
              (if onConnectionStateChange cbs
               then [Call (OnConnectionStateChange ''disconnected'')] else []) @
              [Console Log ''[RTVI] Disconnected'']
          \<and> calls (since s (snd (connect env config cbs s))) =
              (if onError cbs then [OnError e] else []) @
              (if onConnectionStateChange cbs then [OnConnectionStateChange ''disconnected'']
               else [])
          \<and> release_effects (since s (snd (connect env config cbs s))) =
              releases (at_throw env config cbs s)
          \<and> (\<forall>x \<in> set (releases (at_throw env config cbs s)).
                x \<in> set (since s (snd (connect env config cbs s))))
          \<and> (\<forall>tracks t.
                localStream (at_throw env config cbs s) = Some tracks \<and> t \<in> set tracks \<longrightarrow>
                TrackStop (track_id t) \<in> set (since s (snd (connect env config cbs s))))
          \<and> (remoteAudio (at_throw env config cbs s) \<noteq> None \<longrightarrow>
                AudioDetach \<in> set (since s (snd (connect env config cbs s))))
          \<and> (dc (at_throw env config cbs s) \<noteq> None \<longrightarrow>
                DcClose \<in> set (since s (snd (connect env config cbs s))))
          \<and> (pc (at_throw env config cbs s) \<noteq> None \<longrightarrow>
                PcClose \<in> set (since s (snd (connect env config cbs s))))
          \<and> localStream (snd (connect env config cbs s)) = None
          \<and> pc (snd (connect env config cbs s)) = None
          \<and> dc (snd (connect env config cbs s)) = None
          \<and> remoteAudio (snd (connect env config cbs s)) = None
          \<and> sessionId (snd (connect env config cbs s)) = None
          \<and> \<not> connected (snd (connect env config cbs s))
          \<and> isMicMuted (snd (connect env config cbs s))
          \<and> (holds_nothing s \<longrightarrow>
                releases (at_throw env config cbs s) =
                  (case acquired env config of
                     Some tracks \<Rightarrow> map (\<lambda>t. TrackStop (track_id t)) tracks
                   | None \<Rightarrow> [])
                  @ (if pc_built env then [PcClose] else [])))"
proof -
  let ?r = "connect env config cbs s"
  let ?s0 = "connect_init config cbs s"
  let ?s1 = "at_throw env config cbs s"
  have rejects: "\<exists>e. fst ?r = Inl e" if "\<not> all_steps_succeed env config"
  proof -
    from that have "fst ?r \<noteq> Inr ()"
      by (simp add: connect_result)
    then show ?thesis
      by (cases "fst ?r") simp_all
  qed
  have same: "(fst ?r = Inl e) = (fst (connect_try env config ?s0) = Some e)"
    by (simp add: connect_unfold split: option.splits)
  have start: "fst ?r =
      Inl (JsError ''Error'' (''Failed to create session: '' @ string_of_nat (status r)))"
    if "fetch_start env = Inr r \<and> \<not> ok r" for r
  proof -
    from that have "fst (connect_try env config ?s0) =
        Some (new_Error (''Failed to create session: '' @ string_of_nat (status r)))"
      by (simp add: connect_try_start_status)
    then show ?thesis
      by (simp add: connect_unfold new_Error_def)
  qed
  have offer: "fst ?r =
      Inl (JsError ''Error'' (''Failed to send offer: '' @ string_of_nat (status r)))"
    if "pc_built env \<and> media_succeeds env config \<and> \<not> isl (createOffer env)
        \<and> setLocalDescription env = None \<and> fetch_offer env = Inr r \<and> \<not> ok r" for r
  proof -
    from that have "fst (connect_try env config ?s0) =
        Some (new_Error (''Failed to send offer: '' @ string_of_nat (status r)))"
      by (simp add: connect_try_offer_status)
    then show ?thesis
      by (simp add: connect_unfold new_Error_def)
  qed
  have main: "fst ?r = Inl e \<longrightarrow>
          snd ?r =
            disconnect (invoke onError (OnError e)
              (console Err ''[RTVI] Connection error:'' ?s1))
          \<and> since ?s1 (snd ?r) =
              Console Err ''[RTVI] Connection error:'' #
              (if onError cbs then [Call (OnError e)] else []) @
              Console Log ''[RTVI] Disconnecting...'' # releases ?s1 @
              (if onConnectionStateChange cbs
               then [Call (OnConnectionStateChange ''disconnected'')] else []) @
              [Console Log ''[RTVI] Disconnected'']
          \<and> calls (since s (snd ?r)) =
              (if onError cbs then [OnError e] else []) @
              (if onConnectionStateChange cbs then [OnConnectionStateChange ''disconnected'']
               else [])
          \<and> release_effects (since s (snd ?r)) = releases ?s1
          \<and> (\<forall>x \<in> set (releases ?s1). x \<in> set (since s (snd ?r)))
          \<and> (\<forall>tracks t.
                localStream ?s1 = Some tracks \<and> t \<in> set tracks \<longrightarrow>
                TrackStop (track_id t) \<in> set (since s (snd ?r)))
          \<and> (remoteAudio ?s1 \<noteq> None \<longrightarrow> AudioDetach \<in> set (since s (snd ?r)))
          \<and> (dc ?s1 \<noteq> None \<longrightarrow> DcClose \<in> set (since s (snd ?r)))
          \<and> (pc ?s1 \<noteq> None \<longrightarrow> PcClose \<in> set (since s (snd ?r)))
          \<and> localStream (snd ?r) = None
          \<and> pc (snd ?r) = None
          \<and> dc (snd ?r) = None
          \<and> remoteAudio (snd ?r) = None
          \<and> sessionId (snd ?r) = None
          \<and> \<not> connected (snd ?r)
          \<and> isMicMuted (snd ?r)
          \<and> (holds_nothing s \<longrightarrow>
                releases ?s1 =
                  (case acquired env config of
                     Some tracks \<Rightarrow> map (\<lambda>t. TrackStop (track_id t)) tracks
                   | None \<Rightarrow> [])
                  @ (if pc_built env then [PcClose] else []))"
  proof (rule impI)
    assume fail: "fst ?r = Inl e"
    let ?s2 = "invoke onError (OnError e) (console Err ''[RTVI] Connection error:'' ?s1)"
    from fail same have "fst (connect_try env config ?s0) = Some e"
      by simp
    then have eq: "snd ?r = disconnect ?s2"
      by (simp add: connect_unfold at_throw_def)
    have log: "since ?s1 (snd ?r) =
          Console Err ''[RTVI] Connection error:'' #
          (if onError cbs then [Call (OnError e)] else []) @
          Console Log ''[RTVI] Disconnecting...'' # releases ?s1 @
          (if onConnectionStateChange cbs
           then [Call (OnConnectionStateChange ''disconnected'')] else []) @
          [Console Log ''[RTVI] Disconnected'']"
      unfolding eq by (simp add: catch_since)
    have "extends s (snd ?r)"
      by simp
    then have cs: "calls (since s (snd ?r)) =
        (if onError cbs then [OnError e] else []) @
        (if onConnectionStateChange cbs then [OnConnectionStateChange ''disconnected''] else [])"
      by (rule calls_since) (simp add: connect_calls fail)
    have exact: "release_effects (since s (snd ?r)) = releases ?s1"
      using \<open>fst (connect_try env config ?s0) = Some e\<close> by (rule connect_fail_release)
    have "extends ?s1 (snd ?r)"
      unfolding eq by simp
    then have split: "since s (snd ?r) = since s ?s1 @ since ?s1 (snd ?r)"
      by (rule since_trans [rotated]) simp
    have released: "x \<in> set (since s (snd ?r))" if "x \<in> set (releases ?s1)" for x
      using that unfolding split log by simp
    then have rel: "\<forall>x \<in> set (releases ?s1). x \<in> set (since s (snd ?r))"
      by blast
    have tr: "\<forall>tracks t. localStream ?s1 = Some tracks \<and> t \<in> set tracks \<longrightarrow>
        TrackStop (track_id t) \<in> set (since s (snd ?r))"
      using released releases_member(1) by blast
    have ra: "remoteAudio ?s1 \<noteq> None \<longrightarrow> AudioDetach \<in> set (since s (snd ?r))"
      using released releases_member(2) by blast
    have dr: "dc ?s1 \<noteq> None \<longrightarrow> DcClose \<in> set (since s (snd ?r))"
      using released releases_member(3) by blast
    have pr: "pc ?s1 \<noteq> None \<longrightarrow> PcClose \<in> set (since s (snd ?r))"
      using released releases_member(4) by blast
    have n1: "localStream (snd ?r) = None" and n2: "pc (snd ?r) = None"
      and n3: "dc (snd ?r) = None" and n4: "remoteAudio (snd ?r) = None"
      and n5: "sessionId (snd ?r) = None" and n6: "\<not> connected (snd ?r)"
      and n7: "isMicMuted (snd ?r)"
      by (simp_all add: eq disconnect_fields isMicMuted_def)
    have hn: "holds_nothing s \<longrightarrow>
        releases ?s1 =
          (case acquired env config of
             Some tracks \<Rightarrow> map (\<lambda>t. TrackStop (track_id t)) tracks
           | None \<Rightarrow> [])
          @ (if pc_built env then [PcClose] else [])"
      by (rule impI) (rule at_throw_releases)
    from eq log cs exact rel tr ra dr pr n1 n2 n3 n4 n5 n6 n7 hn
    show "snd ?r =
            disconnect (invoke onError (OnError e)
              (console Err ''[RTVI] Connection error:'' ?s1))
          \<and> since ?s1 (snd ?r) =
              Console Err ''[RTVI] Connection error:'' #
              (if onError cbs then [Call (OnError e)] else []) @
              Console Log ''[RTVI] Disconnecting...'' # releases ?s1 @
              (if onConnectionStateChange cbs
               then [Call (OnConnectionStateChange ''disconnected'')] else []) @
              [Console Log ''[RTVI] Disconnected'']
          \<and> calls (since s (snd ?r)) =
              (if onError cbs then [OnError e] else []) @
              (if onConnectionStateChange cbs then [OnConnectionStateChange ''disconnected'']
               else [])
          \<and> release_effects (since s (snd ?r)) = releases ?s1
          \<and> (\<forall>x \<in> set (releases ?s1). x \<in> set (since s (snd ?r)))
          \<and> (\<forall>tracks t.
                localStream ?s1 = Some tracks \<and> t \<in> set tracks \<longrightarrow>
                TrackStop (track_id t) \<in> set (since s (snd ?r)))
          \<and> (remoteAudio ?s1 \<noteq> None \<longrightarrow> AudioDetach \<in> set (since s (snd ?r)))
          \<and> (dc ?s1 \<noteq> None \<longrightarrow> DcClose \<in> set (since s (snd ?r)))
          \<and> (pc ?s1 \<noteq> None \<longrightarrow> PcClose \<in> set (since s (snd ?r)))
          \<and> localStream (snd ?r) = None
          \<and> pc (snd ?r) = None
          \<and> dc (snd ?r) = None
          \<and> remoteAudio (snd ?r) = None
          \<and> sessionId (snd ?r) = None
          \<and> \<not> connected (snd ?r)
          \<and> isMicMuted (snd ?r)
          \<and> (holds_nothing s \<longrightarrow>
                releases ?s1 =
                  (case acquired env config of
                     Some tracks \<Rightarrow> map (\<lambda>t. TrackStop (track_id t)) tracks
                   | None \<Rightarrow> [])
                  @ (if pc_built env then [PcClose] else []))"
      by (intro conjI)
  qed
  have c1: "\<not> all_steps_succeed env config \<longrightarrow> (\<exists>e. fst ?r = Inl e)"
    using rejects by blast
  have c3: "\<forall>r. fetch_start env = Inr r \<and> \<not> ok r \<longrightarrow>
      fst ?r = Inl (JsError ''Error'' (''Failed to create session: '' @ string_of_nat (status r)))"
    using start by blast
  have c4: "\<forall>r. pc_built env \<and> media_succeeds env config \<and> \<not> isl (createOffer env)
        \<and> setLocalDescription env = None \<and> fetch_offer env = Inr r \<and> \<not> ok r \<longrightarrow>
      fst ?r = Inl (JsError ''Error'' (''Failed to send offer: '' @ string_of_nat (status r)))"
    using offer by blast
  from c1 same c3 c4 main show ?thesis
    by (intro conjI)
qed

theorem connect_failure_cleans_up_witness:
  "holds_nothing new_service
   \<and> fst (connect start_503_env demo_config all_callbacks new_service) =
       Inl (JsError ''Error'' ''Failed to create session: 503'')
   \<and> fst (connect offer_500_env demo_config all_callbacks new_service) =
       Inl (JsError ''Error'' ''Failed to send offer: 500'')
   \<and> calls (since new_service (snd (connect offer_500_env demo_config all_callbacks new_service))) =
       [OnError (JsError ''Error'' ''Failed to send offer: 500''),
        OnConnectionStateChange ''disconnected'']
   \<and> release_effects
        (since new_service (snd (connect offer_500_env demo_config all_callbacks new_service))) =
       [TrackStop ''mic'', PcClose]
   \<and> isMicMuted (snd (connect offer_500_env demo_config all_callbacks new_service))"
proof -
  note c2 = conjunct2
  have clean: "holds_nothing new_service"
    by (simp add: holds_nothing_def new_service_def)
  have "fetch_start start_503_env = Inr \<lparr>status = 503, json = Inl (JsError ''SyntaxError'' [])\<rparr>"
    and "\<not> ok \<lparr>status = 503, json = Inl (JsError ''SyntaxError'' []) :: js_error + StartBody\<rparr>"
    by (simp_all add: start_503_env_def ok_env_def ok_def)
  with connect_failure_cleans_up [of start_503_env demo_config all_callbacks new_service,
      THEN c2, THEN c2, THEN conjunct1]
  have start: "fst (connect start_503_env demo_config all_callbacks new_service) =
      Inl (JsError ''Error'' ''Failed to create session: 503'')"
    by (simp add: string_of_nat_503)
  note fact = connect_failure_cleans_up [of offer_500_env demo_config all_callbacks new_service
      "JsError ''Error'' ''Failed to send offer: 500''"]
  from fact [THEN c2, THEN c2, THEN c2, THEN conjunct1] offer_500_env_facts(1-6)
  have offer: "fst (connect offer_500_env demo_config all_callbacks new_service) =
      Inl (JsError ''Error'' ''Failed to send offer: 500'')"
    by (simp add: string_of_nat_500)
  note rest = fact [THEN c2, THEN c2, THEN c2, THEN c2, THEN mp, OF offer]
  have cs: "calls (since new_service
        (snd (connect offer_500_env demo_config all_callbacks new_service))) =
      [OnError (JsError ''Error'' ''Failed to send offer: 500''),
       OnConnectionStateChange ''disconnected'']"
    using rest [THEN c2, THEN c2, THEN conjunct1] by (simp add: all_callbacks_def)
  have "releases (at_throw offer_500_env demo_config all_callbacks new_service) =
      [TrackStop ''mic'', PcClose]"
    using rest [THEN c2, THEN c2, THEN c2, THEN c2, THEN c2, THEN c2, THEN c2, THEN c2, THEN c2,
        THEN c2, THEN c2, THEN c2, THEN c2, THEN c2, THEN c2, THEN c2, THEN mp, OF clean]
    by (simp add: offer_500_env_facts)
  with rest [THEN c2, THEN c2, THEN c2, THEN conjunct1]
  have rel: "release_effects (since new_service
        (snd (connect offer_500_env demo_config all_callbacks new_service))) =
      [TrackStop ''mic'', PcClose]"
    by simp
  have muted: "isMicMuted (snd (connect offer_500_env demo_config all_callbacks new_service))"
    using rest [THEN c2, THEN c2, THEN c2, THEN c2, THEN c2, THEN c2, THEN c2, THEN c2, THEN c2,
        THEN c2, THEN c2, THEN c2, THEN c2, THEN c2, THEN c2, THEN conjunct1] .
  from clean start offer cs rel muted show ?thesis
    by (intro conjI)
qed

subsection \<open>What the handlers add to the log\<close>

lemma handleRTVIMessage_log [simp]:
  "sends (effects (handleRTVIMessage message s)) = sends (effects s)"
  "extends s0 s \<Longrightarrow> extends s0 (handleRTVIMessage message s)"
  by (simp_all add: handleRTVIMessage_def Let_def split: option.splits)

lemma fire_sends:
  "(\<And>uuid. ev \<noteq> EvDcOpen uuid) \<Longrightarrow> sends (effects (fire P ev s)) = sends (effects s)"
  by (cases ev)
    (auto simp: pc_handler_def dc_handler_def set_pc_def set_dc_def ontrack_def
      ondatachannel_def setupDataChannelHandlers_def oniceconnectionstatechange_def
      onconnectionstatechange_def onicecandidate_def onclose_def onmessage_def Let_def
      split: option.splits sum.splits)

lemma fire_open_sends:
  "\<exists>ms. sends (effects (fire P (EvDcOpen uuid) s)) = sends (effects s) @ ms
        \<and> (\<forall>m \<in> set ms. is_client_ready m)"
  by (simp add: dc_handler_def set_dc_def onopen_def sendClientReady_def is_client_ready_def
      Let_def split: option.splits)

lemma fire_extends [simp]: "extends s0 s \<Longrightarrow> extends s0 (fire P ev s)"
  by (cases ev)
    (simp_all add: pc_handler_def dc_handler_def set_pc_def set_dc_def ontrack_def
      ondatachannel_def setupDataChannelHandlers_def oniceconnectionstatechange_def
      onconnectionstatechange_def onicecandidate_def onopen_def sendClientReady_def
      onclose_def onmessage_def Let_def split: option.splits sum.splits)

lemma setMicMuted_log [simp]:
  "sends (effects (setMicMuted muted s)) = sends (effects s)"
  "extends s0 s \<Longrightarrow> extends s0 (setMicMuted muted s)"
  by (simp_all add: setMicMuted_def Let_def split: option.splits)

lemma exec_extends [simp]: "extends s0 s \<Longrightarrow> extends s0 (exec P st s)"
  by (cases st) simp_all

lemma run_extends [simp]: "extends s0 s \<Longrightarrow> extends s0 (run P sts s)"
  by (induction sts arbitrary: s) simp_all

lemma exec_sends_other:
  assumes "\<not> is_open_event st"
  shows "sends (effects (exec P st s)) = sends (effects s)"
proof (cases st)
  case (Event ev)
  with assms have "\<And>uuid. ev \<noteq> EvDcOpen uuid"
    by auto
  with Event show ?thesis
    by (simp add: fire_sends)
qed simp_all

lemma exec_sends:
  "\<exists>ms. sends (effects (exec P st s)) = sends (effects s) @ ms
        \<and> (\<forall>m \<in> set ms. is_client_ready m) \<and> (\<not> is_open_event st \<longrightarrow> ms = [])"
proof (cases "is_open_event st")
  case False
  then show ?thesis
    by (simp add: exec_sends_other)
next
  case True
  then obtain uuid where "st = Event (EvDcOpen uuid)"
    by (cases st rule: is_open_event.cases) simp_all
  with fire_open_sends [of P uuid s] show ?thesis
    by simp
qed

lemma run_sends:
  "\<exists>ms. sends (effects (run P sts s)) = sends (effects s) @ ms
        \<and> (\<forall>m \<in> set ms. is_client_ready m)
        \<and> ((\<forall>st \<in> set sts. \<not> is_open_event st) \<longrightarrow> ms = [])"
proof (induction sts arbitrary: s)
  case Nil
  show ?case by simp
next
  case (Cons st sts)
  obtain ms1 where 1: "sends (effects (exec P st s)) = sends (effects s) @ ms1"
      "\<forall>m \<in> set ms1. is_client_ready m" "\<not> is_open_event st \<longrightarrow> ms1 = []"
    using exec_sends [of P st s] by blast
  obtain ms2 where 2: "sends (effects (run P sts (exec P st s))) =
        sends (effects (exec P st s)) @ ms2"
      "\<forall>m \<in> set ms2. is_client_ready m" "(\<forall>st \<in> set sts. \<not> is_open_event st) \<longrightarrow> ms2 = []"
    using Cons.IH [of "exec P st s"] by blast
  have "sends (effects (run P (st # sts) s)) = sends (effects s) @ (ms1 @ ms2)"
    by (simp add: 1 2)
  moreover have "\<forall>m \<in> set (ms1 @ ms2). is_client_ready m"
    using 1 2 by auto
  moreover have "(\<forall>x \<in> set (st # sts). \<not> is_open_event x) \<longrightarrow> ms1 @ ms2 = []"
    using 1 2 by simp
  ultimately show ?case
    by blast
qed

lemma run_sends_none:
  assumes "\<forall>st \<in> set sts. \<not> is_open_event st"
  shows "sends (since s (run P sts s)) = []"
proof -
  obtain ms where "sends (effects (run P sts s)) = sends (effects s) @ ms" and "ms = []"
    using run_sends [of P sts s] assms by blast
  then have "sends (effects (run P sts s)) = sends (effects s) @ []"
    by simp
  then show ?thesis
    by (rule sends_since [rotated]) simp
qed

lemma run_sends_ready: "\<forall>m \<in> set (sends (since s (run P sts s))). is_client_ready m"
proof -
  obtain ms where ms: "sends (effects (run P sts s)) = sends (effects s) @ ms"
      "\<forall>m \<in> set ms. is_client_ready m"
    using run_sends [of P sts s] by blast
  have "sends (since s (run P sts s)) = ms"
    using ms(1) by (rule sends_since [rotated]) simp
  with ms(2) show ?thesis
    by simp
qed

subsection \<open>The handshake frame\<close>

text \<open>
  Claim C7. When the open event of the service's control channel fires, the service
  sends exactly one frame on it, at once: label \<^verbatim>\<open>rtvi-ai\<close>, type \<^verbatim>\<open>client-ready\<close>,
  version \<^verbatim>\<open>1.0.0\<close>, and as id the first eight characters of a fresh random UUID. No other
  step of the service (a call of its interface or any other event) sends a frame, so in
  every run nothing is sent before the first open event, every frame sent is a
  \<^verbatim>\<open>client-ready\<close> frame, and the first outgoing frame is one.
\<close>

theorem client_ready_on_open:
  "(\<forall>d. dc s = Some d \<and> dc_handlersSet d \<longrightarrow>
       since s (fire P (EvDcOpen uuid) s) =
         [Console Log ''[RTVI] Data channel open'',
          DcSend \<lparr>cr_label = ''rtvi-ai'', cr_type = ''client-ready'', cr_id = take 8 uuid,
                  cr_version = ''1.0.0''\<rparr>,
          Console Log ''[RTVI] Sent client-ready message'']
       \<and> sends (since s (fire P (EvDcOpen uuid) s)) =
         [\<lparr>cr_label = ''rtvi-ai'', cr_type = ''client-ready'', cr_id = take 8 uuid,
           cr_version = ''1.0.0''\<rparr>])
   \<and> (length uuid = 36 \<longrightarrow> length (take 8 uuid) = 8)
   \<and> (\<not> is_open_event st \<longrightarrow> sends (since s (exec P st s)) = [])
   \<and> ((\<forall>st \<in> set sts. \<not> is_open_event st) \<longrightarrow> sends (since s (run P sts s)) = [])
   \<and> (\<forall>m \<in> set (sends (since s (run P sts s))). is_client_ready m)"
proof (intro conjI allI impI)
  fix d
  assume "dc s = Some d \<and> dc_handlersSet d"
  then have "effects (fire P (EvDcOpen uuid) s) = effects s @
         [Console Log ''[RTVI] Data channel open'',
          DcSend \<lparr>cr_label = ''rtvi-ai'', cr_type = ''client-ready'', cr_id = take 8 uuid,
                  cr_version = ''1.0.0''\<rparr>,
          Console Log ''[RTVI] Sent client-ready message'']"
    by (simp add: dc_handler_def set_dc_def onopen_def sendClientReady_def console_def
        emit_def Let_def)
  then show open_log: "since s (fire P (EvDcOpen uuid) s) =
         [Console Log ''[RTVI] Data channel open'',
          DcSend \<lparr>cr_label = ''rtvi-ai'', cr_type = ''client-ready'', cr_id = take 8 uuid,
                  cr_version = ''1.0.0''\<rparr>,
          Console Log ''[RTVI] Sent client-ready message'']"
    by (rule since_append)
  show "sends (since s (fire P (EvDcOpen uuid) s)) =
         [\<lparr>cr_label = ''rtvi-ai'', cr_type = ''client-ready'', cr_id = take 8 uuid,
           cr_version = ''1.0.0''\<rparr>]"
    by (simp only: open_log sends.simps)
next
  assume "length uuid = 36"
  then show "length (take 8 uuid) = 8"
    by simp
next
  assume "\<not> is_open_event st"
  then have "sends (effects (exec P st s)) = sends (effects s) @ []"
    by (simp add: exec_sends_other)
  then show "sends (since s (exec P st s)) = []"
    by (rule sends_since [rotated]) simp
next
  assume "\<forall>st \<in> set sts. \<not> is_open_event st"
  then show "sends (since s (run P sts s)) = []"
    by (rule run_sends_none)
next
  show "\<forall>m \<in> set (sends (since s (run P sts s))). is_client_ready m"
    by (rule run_sends_ready)
qed

theorem client_ready_on_open_witness:
  "sends (since connected_service
       (run reject_all [Event (EvDataChannel announced_channel), Event (EvDcOpen demo_uuid)]
          connected_service)) =
     [\<lparr>cr_label = ''rtvi-ai'', cr_type = ''client-ready'', cr_id = ''3b241101'',
       cr_version = ''1.0.0''\<rparr>]
   \<and> sends (since connected_service
       (run reject_all [Event (EvDataChannel announced_channel)] connected_service)) = []"
proof -
  let ?s = "fire reject_all (EvDataChannel announced_channel) connected_service"
  have wired: "dc ?s = Some (announced_channel\<lparr>dc_handlersSet := True\<rparr>)"
    by (simp add: connected_service_eq pc_handler_def ondatachannel_def
        setupDataChannelHandlers_def console_def emit_def Let_def)
  have before: "sends (since connected_service ?s) = []"
    using client_ready_on_open [of connected_service reject_all demo_uuid
        "Event (EvDataChannel announced_channel)" "[Event (EvDataChannel announced_channel)]"]
    by simp
  have "sends (since ?s (fire reject_all (EvDcOpen demo_uuid) ?s)) =
      [\<lparr>cr_label = ''rtvi-ai'', cr_type = ''client-ready'', cr_id = ''3b241101'',
        cr_version = ''1.0.0''\<rparr>]"
    using client_ready_on_open [of ?s reject_all demo_uuid Disconnect "[]"] wired
    by (simp add: demo_uuid_def)
  moreover have "since connected_service (fire reject_all (EvDcOpen demo_uuid) ?s) =
      since connected_service ?s @ since ?s (fire reject_all (EvDcOpen demo_uuid) ?s)"
    by (rule since_trans; rule fire_extends; rule extends_refl)
  ultimately show ?thesis
    using before by (simp add: sends_append)
qed

subsection \<open>Malformed frames\<close>

lemma handleRTVIMessage_relog:
  "handleRTVIMessage message (s\<lparr>effects := t\<rparr>) = relog t s (handleRTVIMessage message s)"
proof (cases "no_dispatch message")
  case True
  then show ?thesis
    by (simp add: handle_no_dispatch relog_def since_def console_def emit_def)
next
  case False
  then have "msg_type message = ''user-transcription'' \<or> msg_type message = ''bot-llm-text''
      \<or> msg_type message = ''bot-llm-started'' \<or> msg_type message = ''bot-llm-stopped''
      \<or> msg_type message = ''bot-tts-text'' \<or> msg_type message = ''bot-tts-started''
      \<or> msg_type message = ''bot-tts-stopped'' \<or> msg_type message = ''user-started-speaking''
      \<or> msg_type message = ''user-stopped-speaking'' \<or> msg_type message = ''bot-started-speaking''
      \<or> msg_type message = ''bot-stopped-speaking'' \<or> msg_type message = ''error''"
    by (simp add: no_dispatch_def RTVIMessageType_def)
  then show ?thesis
    by (elim disjE)
      (simp_all add: handleRTVIMessage_def relog_def since_def console_def emit_def invoke_def
        Let_def split: option.splits)
qed

lemma relog_set:
  "relog t (set_pc f s) x = relog t s x" "relog t (set_dc g s) x = relog t s x"
  by (simp_all add: relog_def since_def set_pc_def set_dc_def)

lemma pc_handler_relog:
  assumes "\<And>s t. h (s\<lparr>effects := t\<rparr>) = relog t s (h s)"
  shows "pc_handler h (s\<lparr>effects := t\<rparr>) = relog t s (pc_handler h s)"
  by (simp add: pc_handler_def assms split: option.splits) (simp add: relog_def since_def)

lemma dc_handler_relog:
  assumes "\<And>s t. h (s\<lparr>effects := t\<rparr>) = relog t s (h s)"
  shows "dc_handler h (s\<lparr>effects := t\<rparr>) = relog t s (dc_handler h s)"
  by (simp add: dc_handler_def assms split: option.splits) (simp add: relog_def since_def)

lemma set_relog:
  "set_pc f (s\<lparr>effects := t\<rparr>) = (set_pc f s)\<lparr>effects := t\<rparr>"
  "set_dc g (s\<lparr>effects := t\<rparr>) = (set_dc g s)\<lparr>effects := t\<rparr>"
  "effects (set_pc f s) = effects s" "effects (set_dc g s) = effects s"
  by (simp_all add: set_pc_def set_dc_def)

lemma pc_handlers_relog:
  "ontrack k streams (s\<lparr>effects := t\<rparr>) = relog t s (ontrack k streams s)"
  "ondatachannel channel (s\<lparr>effects := t\<rparr>) = relog t s (ondatachannel channel s)"
  "oniceconnectionstatechange (s\<lparr>effects := t\<rparr>) = relog t s (oniceconnectionstatechange s)"
  "onconnectionstatechange (s\<lparr>effects := t\<rparr>) = relog t s (onconnectionstatechange s)"
  "onicecandidate candidate outcome (s\<lparr>effects := t\<rparr>) =
     relog t s (onicecandidate candidate outcome s)"
  by (simp_all add: ontrack_def ondatachannel_def setupDataChannelHandlers_def
      oniceconnectionstatechange_def onconnectionstatechange_def onicecandidate_def
      ice_state_read_def pc_state_read_def relog_def since_def console_def emit_def invoke_def
      Let_def split: option.splits)

lemma dc_handlers_relog:
  "onopen uuid (s\<lparr>effects := t\<rparr>) = relog t s (onopen uuid s)"
  "onclose (s\<lparr>effects := t\<rparr>) = relog t s (onclose s)"
  by (simp_all add: onopen_def sendClientReady_def onclose_def relog_def since_def console_def
      emit_def Let_def split: option.splits)

lemma onmessage_relog: "onmessage P data (s\<lparr>effects := t\<rparr>) = relog t s (onmessage P data s)"
proof (cases "P data")
  case (Inl e)
  then show ?thesis
    by (simp add: onmessage_def relog_def since_def console_def emit_def)
next
  case (Inr message)
  then show ?thesis
    by (simp add: onmessage_def handleRTVIMessage_relog)
qed

lemma fire_relog: "fire P ev (s\<lparr>effects := t\<rparr>) = relog t s (fire P ev s)"
proof (cases ev)
  case (EvIceConnectionStateChange st)
  then show ?thesis
    by (simp add: set_relog pc_handler_relog pc_handlers_relog relog_set)
next
  case (EvConnectionStateChange st)
  then show ?thesis
    by (simp add: set_relog pc_handler_relog pc_handlers_relog relog_set)
next
  case (EvDcOpen uuid)
  then show ?thesis
    by (simp add: set_relog dc_handler_relog dc_handlers_relog relog_set)
next
  case EvDcClose
  then show ?thesis
    by (simp add: set_relog dc_handler_relog dc_handlers_relog relog_set)
qed (simp_all add: pc_handler_relog dc_handler_relog pc_handlers_relog onmessage_relog)

lemma fire_all_extends [simp]: "extends s0 s \<Longrightarrow> extends s0 (fire_all P evs s)"
  by (induction evs arbitrary: s) simp_all

lemma fire_all_relog: "fire_all P evs (s\<lparr>effects := t\<rparr>) = relog t s (fire_all P evs s)"
proof (induction evs arbitrary: s t)
  case Nil
  show ?case by (simp add: relog_def since_def)
next
  case (Cons ev evs)
  let ?s1 = "fire P ev s"
  let ?s2 = "fire_all P evs ?s1"
  have "fire_all P (ev # evs) (s\<lparr>effects := t\<rparr>) =
      fire_all P evs (?s1\<lparr>effects := t @ since s ?s1\<rparr>)"
    by (simp add: fire_relog relog_def)
  also have "\<dots> = ?s2\<lparr>effects := (t @ since s ?s1) @ since ?s1 ?s2\<rparr>"
    by (simp add: Cons.IH relog_def)
  also have "since s ?s2 = since s ?s1 @ since ?s1 ?s2"
    by (rule since_trans; rule fire_extends fire_all_extends; rule extends_refl)
  then have "?s2\<lparr>effects := (t @ since s ?s1) @ since ?s1 ?s2\<rparr> = relog t s ?s2"
    by (simp add: relog_def)
  finally show ?case
    by simp
qed

text \<open>
  Claim C8. A frame that \<^verbatim>\<open>JSON.parse\<close> rejects is dropped by the message handler: the
  handler returns normally, having written one console warning; it invokes no callback,
  the error callback included, and changes no field of the service. Any events delivered
  afterwards leave the service in the same fields, and add the same entries to the log,
  as they would have without the bad frame.
\<close>

theorem malformed_frame_dropped:
  assumes "P bad = Inl e"
  shows "onmessage P bad s = console Warn ''[RTVI] Failed to parse message:'' s
       \<and> since s (onmessage P bad s) = [Console Warn ''[RTVI] Failed to parse message:'']
       \<and> calls (since s (onmessage P bad s)) = []
       \<and> svc_fields (onmessage P bad s) = svc_fields s
       \<and> svc_fields (fire_all P evs (onmessage P bad s)) = svc_fields (fire_all P evs s)
       \<and> since (onmessage P bad s) (fire_all P evs (onmessage P bad s)) =
           since s (fire_all P evs s)"
proof -
  let ?w = "Console Warn ''[RTVI] Failed to parse message:''"
  let ?s1 = "onmessage P bad s"
  let ?s2 = "fire_all P evs s"
  have c1: "?s1 = console Warn ''[RTVI] Failed to parse message:'' s"
    using assms by (simp add: onmessage_def)
  then have bad: "?s1 = s\<lparr>effects := effects s @ [?w]\<rparr>"
    by (simp add: console_def emit_def)
  have c2: "since s ?s1 = [?w]"
    by (rule since_append) (simp add: bad)
  have c3: "calls (since s ?s1) = []"
    by (simp only: c2 calls.simps)
  have c4: "svc_fields ?s1 = svc_fields s"
    by (simp add: bad svc_fields_def)
  have "fire_all P evs (s\<lparr>effects := effects s @ [?w]\<rparr>) = relog (effects s @ [?w]) s ?s2"
    by (rule fire_all_relog)
  then have after: "fire_all P evs ?s1 = ?s2\<lparr>effects := (effects s @ [?w]) @ since s ?s2\<rparr>"
    by (simp only: bad relog_def)
  have c5: "svc_fields (fire_all P evs ?s1) = svc_fields ?s2"
    by (simp only: after) (simp add: svc_fields_def)
  have "effects (fire_all P evs ?s1) = (effects s @ [?w]) @ since s ?s2"
    by (simp only: after) simp
  moreover have "effects ?s1 = effects s @ [?w]"
    by (simp only: bad) simp
  ultimately have "effects (fire_all P evs ?s1) = effects ?s1 @ since s ?s2"
    by simp
  then have c6: "since ?s1 (fire_all P evs ?s1) = since s ?s2"
    by (rule since_append)
  from c1 c2 c3 c4 c5 c6 show ?thesis
    by (intro conjI)
qed

theorem malformed_frame_dropped_witness:
  "accept_hi ''not json'' = Inl (JsError ''SyntaxError'' ''not json'')
   \<and> onmessage accept_hi ''not json'' (new_service\<lparr>callbacks := all_callbacks\<rparr>) =
       console Warn ''[RTVI] Failed to parse message:'' (new_service\<lparr>callbacks := all_callbacks\<rparr>)
   \<and> calls (since (onmessage accept_hi ''not json'' (new_service\<lparr>callbacks := all_callbacks\<rparr>))
        (fire_all accept_hi [EvDcMessage ''hi'']
           (onmessage accept_hi ''not json'' (new_service\<lparr>callbacks := all_callbacks\<rparr>)))) =
       [OnBotTranscript ''Hi'']"
proof -
  let ?s = "new_service\<lparr>callbacks := all_callbacks\<rparr>"
  have bad: "accept_hi ''not json'' = Inl (JsError ''SyntaxError'' ''not json'')"
    by (simp add: accept_hi_def)
  note fact = malformed_frame_dropped [where P = accept_hi and bad = "''not json''"
      and s = ?s and evs = "[EvDcMessage ''hi'']", OF bad]
  have "effects (fire_all accept_hi [EvDcMessage ''hi''] ?s) =
      effects ?s @ [Console Log ''[RTVI] Message:'', Call (OnBotTranscript ''Hi'')]"
    by (simp add: dc_handler_def onmessage_def accept_hi_def fragment_def
        handleRTVIMessage_def data_text_def new_service_def all_callbacks_def console_def
        invoke_def emit_def Let_def)
  then have "since ?s (fire_all accept_hi [EvDcMessage ''hi''] ?s) =
      [Console Log ''[RTVI] Message:'', Call (OnBotTranscript ''Hi'')]"
    by (rule since_append)
  then show ?thesis
    using bad fact [THEN conjunct1]
      fact [THEN conjunct2, THEN conjunct2, THEN conjunct2, THEN conjunct2, THEN conjunct2]
    by simp
qed

end
